theory Spec2Isabelle
  imports Main "HOL-Library.Sublist"
begin

section \<open>Overview\<close>

text \<open>
  A model of the Boltz tool server: the tools of \<^verbatim>\<open>src/server.py\<close>, the two prediction
  scripts under \<^verbatim>\<open>scripts/\<close> they run, and the job manager the server hands its
  asynchronous jobs to. The first part holds the definitions, function by function as the
  sources have them; the second part the properties, one section per component.
  Exceptions are values (\<open>Inl\<close> of a sum), effects on the file system and the child
  process are logged, and what the operating system answers is a parameter.
\<close>

section \<open>Python values\<close>

text \<open>
  The tools of \<^verbatim>\<open>src/server.py\<close> and the scripts under \<^verbatim>\<open>scripts/\<close> exchange
  dictionaries. A dictionary is an association list in insertion order, read with
  \<open>map_of\<close>; \<open>None\<close>, booleans, integers, strings, lists and nested dictionaries are the
  values that occur. Strings are \<open>char list\<close>, read as ASCII text (paths, options,
  messages); the one input whose characters beyond ASCII matter, the sequence given to
  \<^verbatim>\<open>validate_protein_sequence\<close>, is a list of code points.
\<close>

datatype pyval =
    PNone
  | PBool bool
  | PInt int
  | PStr string
  | PList "pyval list"
  | PDict "(string \<times> pyval) list"

type_synonym pydict = "(string \<times> pyval) list"

text \<open>An \<open>Optional[str]\<close> parameter is tested by truthiness: \<open>None\<close> and the empty string
  are both false.\<close>

fun truthy :: "string option \<Rightarrow> bool" where
  "truthy None = False"
| "truthy (Some s) = (s \<noteq> [])"

section \<open>The utility tool \<open>validate_protein_sequence\<close>\<close>

text \<open>
  A Python \<^verbatim>\<open>str\<close> is a sequence of Unicode code points, and this tool is sensitive to
  the ones beyond ASCII: \<^verbatim>\<open>sequence.upper()\<close> applies the Unicode case mapping (which
  may turn one character into several) and the pattern \<^verbatim>\<open>\s+\<close> matches Unicode white
  space. Its input is therefore a list of code points, and the two tables of the Unicode
  database behind these built-ins are parameters of the model: the upper-case mapping of a
  character and the set of white-space characters. Every property holds for whatever
  tables are supplied, Python's among them.
\<close>

type_synonym codepoint = nat

record unicode_tables =
  upper_of :: "codepoint \<Rightarrow> codepoint list"
  is_space :: "codepoint \<Rightarrow> bool"

text \<open>An ASCII literal as code points.\<close>

definition ascii :: "string \<Rightarrow> codepoint list" where
  "ascii s = map of_char s"

text \<open>\<^verbatim>\<open>s.upper()\<close>: every character is replaced by its upper-case mapping.\<close>

definition py_upper :: "unicode_tables \<Rightarrow> codepoint list \<Rightarrow> codepoint list" where
  "py_upper db s = concat (map (upper_of db) s)"

text \<open>\<^verbatim>\<open>re.sub(r'\s+', '', s)\<close>: every maximal run of white space is deleted, which leaves
  exactly the characters that are not white space, in order.\<close>

definition strip_whitespace :: "unicode_tables \<Rightarrow> codepoint list \<Rightarrow> codepoint list" where
  "strip_whitespace db s = filter (\<lambda>c. \<not> is_space db c) s"

text \<open>\<^verbatim>\<open>valid_aa = set('ACDEFGHIKLMNPQRSTVWY')\<close>. The loop \<^verbatim>\<open>for aa in valid_aa\<close> visits
  each letter once, in an order Python does not fix; the letters are distinct, so the
  dictionary built does not depend on it, and the model visits them as listed.\<close>

definition valid_aa_letters :: "codepoint list" where
  "valid_aa_letters = ascii ''ACDEFGHIKLMNPQRSTVWY''"

definition valid_aa :: "codepoint set" where
  "valid_aa = set valid_aa_letters"

text \<open>
  The percentage is the double \<^verbatim>\<open>round((count / len(clean_seq)) * 100, 2)\<close>. Python's
  float arithmetic is a built-in of the language, not code of the repository: the three
  operations are parameters of the model, so every property holds for whatever they compute.
\<close>

record 'f float_ops =
  truediv :: "nat \<Rightarrow> nat \<Rightarrow> 'f"
  times_int :: "'f \<Rightarrow> int \<Rightarrow> 'f"
  round_ndigits :: "'f \<Rightarrow> nat \<Rightarrow> 'f"

record 'f aa_entry =
  count :: nat
  percentage :: 'f

record 'f validation =
  status :: string
  sequence_length :: nat
  valid :: bool
  clean_sequence :: "codepoint list"
  invalid_characters :: "codepoint set"
  composition :: "codepoint \<rightharpoonup> 'f aa_entry"

fun composition_loop ::
  "'f float_ops \<Rightarrow> codepoint list \<Rightarrow> codepoint list \<Rightarrow> (codepoint \<rightharpoonup> 'f aa_entry) \<Rightarrow>
   (codepoint \<rightharpoonup> 'f aa_entry)"
where
  "composition_loop fl clean_seq [] dict = dict"
| "composition_loop fl clean_seq (aa # rest) dict =
     (let n = count_list clean_seq aa in
      composition_loop fl clean_seq rest
        (if n > 0
         then dict(aa \<mapsto>
                \<lparr>count = n,
                 percentage =
                   round_ndigits fl (times_int fl (truediv fl n (length clean_seq)) 100) 2\<rparr>)
         else dict))"

definition validate_protein_sequence ::
  "unicode_tables \<Rightarrow> 'f float_ops \<Rightarrow> codepoint list \<Rightarrow> 'f validation"
where
  "validate_protein_sequence db fl sequence =
     (let clean_seq = strip_whitespace db (py_upper db sequence);
          invalid_chars = set clean_seq - valid_aa
      in \<lparr>status = ''success'',
          sequence_length = length clean_seq,
          valid = (card invalid_chars = 0),
          clean_sequence = clean_seq,
          invalid_characters = invalid_chars,
          composition = composition_loop fl clean_seq valid_aa_letters Map.empty\<rparr>)"

text \<open>For concrete runs the float operations are left symbolic: a percentage is the
  expression Python evaluates, not a number.\<close>

datatype float_expr =
    PyDiv nat nat
  | PyMul float_expr int
  | PyRound float_expr nat

definition symbolic_ops :: "float_expr float_ops" where
  "symbolic_ops = \<lparr>truediv = PyDiv, times_int = PyMul, round_ndigits = PyRound\<rparr>"

text \<open>For concrete runs, an excerpt of Python's tables: the upper-case mapping of the ASCII
  letters, of U+00DF (sharp s, to \<open>SS\<close>) and of U+0131 (dotless i, to \<open>I\<close>), and as white
  space the ASCII characters 0x09-0x0D, 0x1C-0x1F and 0x20 with U+0085 and U+00A0. It says
  what Python says on these code points and on the other ASCII characters; it is not
  Python's table elsewhere.\<close>

definition sample_tables :: unicode_tables where
  "sample_tables =
     \<lparr>upper_of = (\<lambda>c. if 97 \<le> c \<and> c \<le> 122 then [c - 32]
                      else if c = 223 then [83, 83]
                      else if c = 305 then [73]
                      else [c]),
      is_space = (\<lambda>c. (9 \<le> c \<and> c \<le> 13) \<or> (28 \<le> c \<and> c \<le> 32) \<or> c = 133 \<or> c = 160)\<rparr>"

section \<open>The world outside the scripts\<close>

text \<open>
  The scripts touch the file system and start one child process. What the world tells
  them is a parameter: how \<^verbatim>\<open>pathlib\<close> renders and joins paths, whether a path exists,
  whether a file-system call raises, what the child does, how Python renders a
  \<^verbatim>\<open>CalledProcessError\<close>, and what the scan of the output directory finds (the scanners
  \<^verbatim>\<open>find_output_files\<close> and \<^verbatim>\<open>parse_affinity_results\<close> read result files and are taken
  by their answer). Every call that changes the world is logged as an effect, in order.
\<close>

datatype py_exn =
    ValueError string
  | FileNotFoundError string
  | OtherError string

datatype effect =
    Mkdir string
  | WriteYaml string pyval
  | Spawn "string list"
  | Unlink string

text \<open>\<^verbatim>\<open>subprocess.run(cmd, capture_output=True, text=True, check=True)\<close>: the child
  could not be started (the call raises), or it ran and exited with a return code, its
  output captured as text.\<close>

datatype proc_outcome =
    NotStarted py_exn
  | Exited int string string

record world =
  path_str :: "string \<Rightarrow> string"
  path_join :: "string \<Rightarrow> string \<Rightarrow> string"
  path_exists :: "string \<Rightarrow> bool"
  os_raises :: "effect \<Rightarrow> py_exn option"
  run_process :: "string list \<Rightarrow> proc_outcome"
  called_process_error_str :: "string list \<Rightarrow> int \<Rightarrow> string"
  found_output_files :: "string \<Rightarrow> pydict"
  found_affinity_values :: "string \<Rightarrow> pyval"

text \<open>\<^verbatim>\<open>sep.join(xs)\<close>, the truth value of a Python value, and \<^verbatim>\<open>d.get(k, default)\<close>.\<close>

fun py_join :: "string \<Rightarrow> string list \<Rightarrow> string" where
  "py_join sep [] = []"
| "py_join sep [x] = x"
| "py_join sep (x # y # ys) = x @ sep @ py_join sep (y # ys)"

fun py_truth :: "pyval \<Rightarrow> bool" where
  "py_truth PNone = False"
| "py_truth (PBool b) = b"
| "py_truth (PInt i) = (i \<noteq> 0)"
| "py_truth (PStr s) = (s \<noteq> [])"
| "py_truth (PList xs) = (xs \<noteq> [])"
| "py_truth (PDict d) = (d \<noteq> [])"

definition dict_get :: "pydict \<Rightarrow> string \<Rightarrow> pyval \<Rightarrow> pyval" where
  "dict_get d k dflt = (case map_of d k of Some v \<Rightarrow> v | None \<Rightarrow> dflt)"

section \<open>\<^verbatim>\<open>scripts/structure_prediction.py\<close>\<close>

text \<open>\<^verbatim>\<open>DEFAULT_CONFIG\<close>, and \<^verbatim>\<open>{**DEFAULT_CONFIG, **(config or {}), **kwargs}\<close>: an
  entry of a dictionary on the right replaces the entry on its left. The keys the script
  reads carry the types of their defaults.\<close>

record config =
  use_msa_server :: bool
  use_potentials :: bool
  output_format :: string
  temp_prefix :: string

record config_update =
  set_use_msa_server :: "bool option"
  set_use_potentials :: "bool option"
  set_output_format :: "string option"
  set_temp_prefix :: "string option"

definition no_update :: config_update where
  "no_update = \<lparr>set_use_msa_server = None, set_use_potentials = None,
                 set_output_format = None, set_temp_prefix = None\<rparr>"

definition DEFAULT_CONFIG :: config where
  "DEFAULT_CONFIG = \<lparr>use_msa_server = True, use_potentials = False,
                      output_format = ''pdb'', temp_prefix = ''temp_input''\<rparr>"

definition merge_config :: "config \<Rightarrow> config_update \<Rightarrow> config" where
  "merge_config c u =
     \<lparr>use_msa_server = (case set_use_msa_server u of Some b \<Rightarrow> b | None \<Rightarrow> use_msa_server c),
      use_potentials = (case set_use_potentials u of Some b \<Rightarrow> b | None \<Rightarrow> use_potentials c),
      output_format = (case set_output_format u of Some s \<Rightarrow> s | None \<Rightarrow> output_format c),
      temp_prefix = (case set_temp_prefix u of Some s \<Rightarrow> s | None \<Rightarrow> temp_prefix c)\<rparr>"

definition config_dict :: "config \<Rightarrow> pyval" where
  "config_dict c =
     PDict [(''use_msa_server'', PBool (use_msa_server c)),
            (''use_potentials'', PBool (use_potentials c)),
            (''output_format'', PStr (output_format c)),
            (''temp_prefix'', PStr (temp_prefix c))]"

text \<open>\<^verbatim>\<open>create_protein_yaml\<close>: the configuration it writes to the YAML file.\<close>

definition create_protein_yaml :: "string \<Rightarrow> bool \<Rightarrow> pyval" where
  "create_protein_yaml sequence msa =
     PDict [(''version'', PInt 1),
            (''sequences'',
               PList [PDict [(''protein'',
                  PDict ([(''id'', PStr ''A''), (''sequence'', PStr sequence)]
                         @ (if \<not> msa then [(''msa'', PStr ''empty'')] else [])))]])]"

text \<open>
  \<^verbatim>\<open>run_boltz_command\<close>. \<open>boltz_cmd\<close> is the command list \<^verbatim>\<open>cmd\<close> it builds. The
  child is run: return code 0 gives the success dictionary; any other return code makes
  \<^verbatim>\<open>subprocess.run\<close> raise \<^verbatim>\<open>CalledProcessError\<close> (\<^verbatim>\<open>check=True\<close>), which the
  function catches and turns into the failure dictionary. An exception of another kind
  (the child could not be started) is not caught.
\<close>

definition boltz_cmd :: "string \<Rightarrow> string \<Rightarrow> bool \<Rightarrow> bool \<Rightarrow> string \<Rightarrow> string list" where
  "boltz_cmd input_yaml output_dir msa potentials fmt =
     [''boltz'', ''predict'', input_yaml, ''--out_dir'', output_dir, ''--output_format'', fmt]
     @ (if msa then [''--use_msa_server''] else [])
     @ (if potentials then [''--use_potentials''] else [])"

definition run_boltz_command ::
  "world \<Rightarrow> string \<Rightarrow> string \<Rightarrow> bool \<Rightarrow> bool \<Rightarrow> string \<Rightarrow> (py_exn + pydict) \<times> effect list"
where
  "run_boltz_command w input_yaml output_dir msa potentials fmt =
     (let cmd = boltz_cmd input_yaml output_dir msa potentials fmt
      in (case run_process w cmd of
            NotStarted e \<Rightarrow> Inl e
          | Exited returncode out err \<Rightarrow>
              if returncode = 0
              then Inr [(''success'', PBool True),
                        (''stdout'', PStr out),
                        (''stderr'', PStr err),
                        (''command'', PStr (py_join '' '' cmd))]
              else Inr [(''success'', PBool False),
                        (''error'', PStr (called_process_error_str w cmd returncode)),
                        (''stderr'', PStr err),
                        (''command'', PStr (py_join '' '' cmd))],
          [Spawn cmd]))"

text \<open>The result dictionary \<^verbatim>\<open>run_structure_prediction\<close> prepares from the answer of
  \<^verbatim>\<open>run_boltz_command\<close> (the last part of the function, from \<^verbatim>\<open># Prepare result\<close>).
  \<^verbatim>\<open>prediction_result["success"]\<close> raises \<^verbatim>\<open>KeyError\<close> on a dictionary without the
  key. \<open>input_file\<close> is the path as \<^verbatim>\<open>Path\<close> renders it, when one was given.\<close>

definition shown_sequence :: "string option \<Rightarrow> pyval" where
  "shown_sequence sequence =
     (case sequence of
        None \<Rightarrow> PNone
      | Some s \<Rightarrow> if s \<noteq> [] \<and> length s < 100 then PStr s
                  else if s \<noteq> [] then PStr (take 50 s @ ''...'')
                  else PNone)"

definition structure_result ::
  "pydict \<Rightarrow> string option \<Rightarrow> string option \<Rightarrow> string \<Rightarrow> pydict \<Rightarrow> config \<Rightarrow> py_exn + pydict"
where
  "structure_result prediction_result input_file sequence output_dir output_files cfg =
     (case map_of prediction_result ''success'' of
        None \<Rightarrow> Inl (OtherError ''KeyError: success'')
      | Some success \<Rightarrow>
         let result =
           [(''success'', success),
            (''result'', PDict
               [(''command_output'', dict_get prediction_result ''stdout'' (PStr [])),
                (''command_used'', dict_get prediction_result ''command'' (PStr [])),
                (''sequence_length'',
                   (case sequence of
                      Some s \<Rightarrow> if s \<noteq> [] then PInt (int (length s)) else PNone
                    | None \<Rightarrow> PNone)),
                (''input_source'', PStr (if truthy sequence then ''sequence'' else ''file''))]),
            (''output_dir'', PStr output_dir),
            (''output_files'', PDict output_files),
            (''metadata'', PDict
               [(''config'', config_dict cfg),
                (''input_file'', (case input_file of Some p \<Rightarrow> PStr p | None \<Rightarrow> PNone)),
                (''sequence'', shown_sequence sequence)])]
         in if \<not> py_truth success
            then Inr (result @
                   [(''error'', dict_get prediction_result ''error'' (PStr ''Unknown error'')),
                    (''stderr'', dict_get prediction_result ''stderr'' (PStr []))])
            else Inr result)"

text \<open>
  \<^verbatim>\<open>run_structure_prediction\<close>. The value is the exception raised or the dictionary
  returned, together with the effects performed up to that point. \<open>config\<close> is the
  caller's configuration (\<open>no_update\<close> for \<^verbatim>\<open>None\<close>), \<open>kwargs\<close> the keyword overrides.
  \<open>structure_run\<close> is the part of the function after the input has been handled: run the
  prediction, scan the outputs, remove the temporary file, prepare the result.
\<close>

definition structure_run ::
  "world \<Rightarrow> config \<Rightarrow> string option \<Rightarrow> string option \<Rightarrow> string \<Rightarrow> string \<Rightarrow> bool \<Rightarrow>
   effect list \<Rightarrow> (py_exn + pydict) \<times> effect list"
where
  "structure_run w cfg input_file sequence output_dir input_yaml_path cleanup_temp fx =
     (case run_boltz_command w input_yaml_path output_dir
             (use_msa_server cfg) (use_potentials cfg) (output_format cfg) of
        (Inl e, spawned) \<Rightarrow> (Inl e, fx @ spawned)
      | (Inr prediction_result, spawned) \<Rightarrow>
          let output_files = found_output_files w output_dir;
              result = structure_result prediction_result input_file sequence output_dir
                         output_files cfg
          in if cleanup_temp \<and> path_exists w input_yaml_path
             then (case os_raises w (Unlink input_yaml_path) of
                     Some e \<Rightarrow> (Inl e, fx @ spawned @ [Unlink input_yaml_path])
                   | None \<Rightarrow> (result, fx @ spawned @ [Unlink input_yaml_path]))
             else (result, fx @ spawned))"

definition run_structure_prediction ::
  "world \<Rightarrow> string option \<Rightarrow> string option \<Rightarrow> string option \<Rightarrow> config_update \<Rightarrow>
   config_update \<Rightarrow> (py_exn + pydict) \<times> effect list"
where
  "run_structure_prediction w input_file sequence output_dir config kwargs =
     (let cfg = merge_config (merge_config DEFAULT_CONFIG config) kwargs in
      if \<not> truthy input_file \<and> \<not> truthy sequence
      then (Inl (ValueError ''Must provide either input_file or sequence''), [])
      else if truthy input_file \<and> truthy sequence
      then (Inl (ValueError ''Provide either input_file OR sequence, not both''), [])
      else
       let out = path_str w (if truthy output_dir then the output_dir
                              else ''./boltz_structure_output'')
       in case os_raises w (Mkdir out) of
            Some e \<Rightarrow> (Inl e, [Mkdir out])
          | None \<Rightarrow>
             if truthy input_file
             then
               let infile = path_str w (the input_file)
               in if \<not> path_exists w infile
                  then (Inl (FileNotFoundError (''Input file not found: '' @ infile)),
                        [Mkdir out])
                  else structure_run w cfg (Some infile) sequence out infile False [Mkdir out]
             else
               let temp_yaml = path_join w out (temp_prefix cfg @ ''.yaml'');
                   write = WriteYaml temp_yaml
                             (create_protein_yaml (the sequence) (use_msa_server cfg))
               in case os_raises w write of
                    Some e \<Rightarrow> (Inl e, [Mkdir out, write])
                  | None \<Rightarrow>
                      structure_run w cfg None sequence out temp_yaml True [Mkdir out, write])"

section \<open>\<^verbatim>\<open>scripts/affinity_prediction.py\<close>\<close>

text \<open>The affinity script has its own \<^verbatim>\<open>DEFAULT_CONFIG\<close>, with two more keys.\<close>

record affinity_config = config +
  protein_id :: string
  ligand_id :: string

record affinity_config_update = config_update +
  set_protein_id :: "string option"
  set_ligand_id :: "string option"

definition no_affinity_update :: affinity_config_update where
  "no_affinity_update =
     \<lparr>set_use_msa_server = None, set_use_potentials = None, set_output_format = None,
      set_temp_prefix = None, set_protein_id = None, set_ligand_id = None\<rparr>"

definition DEFAULT_CONFIG_affinity :: affinity_config where
  "DEFAULT_CONFIG_affinity =
     \<lparr>use_msa_server = True, use_potentials = False, output_format = ''pdb'',
      temp_prefix = ''temp_affinity'', protein_id = ''A'', ligand_id = ''B''\<rparr>"

definition merge_affinity_config ::
  "affinity_config \<Rightarrow> affinity_config_update \<Rightarrow> affinity_config"
where
  "merge_affinity_config c u =
     \<lparr>use_msa_server = (case set_use_msa_server u of Some b \<Rightarrow> b | None \<Rightarrow> use_msa_server c),
      use_potentials = (case set_use_potentials u of Some b \<Rightarrow> b | None \<Rightarrow> use_potentials c),
      output_format = (case set_output_format u of Some s \<Rightarrow> s | None \<Rightarrow> output_format c),
      temp_prefix = (case set_temp_prefix u of Some s \<Rightarrow> s | None \<Rightarrow> temp_prefix c),
      protein_id = (case set_protein_id u of Some s \<Rightarrow> s | None \<Rightarrow> protein_id c),
      ligand_id = (case set_ligand_id u of Some s \<Rightarrow> s | None \<Rightarrow> ligand_id c)\<rparr>"

definition affinity_config_dict :: "affinity_config \<Rightarrow> pyval" where
  "affinity_config_dict c =
     PDict [(''use_msa_server'', PBool (use_msa_server c)),
            (''use_potentials'', PBool (use_potentials c)),
            (''output_format'', PStr (output_format c)),
            (''temp_prefix'', PStr (temp_prefix c)),
            (''protein_id'', PStr (protein_id c)),
            (''ligand_id'', PStr (ligand_id c))]"

text \<open>An \<open>Optional[str]\<close> as a value of a dictionary.\<close>

fun opt_str :: "string option \<Rightarrow> pyval" where
  "opt_str None = PNone"
| "opt_str (Some s) = PStr s"

text \<open>\<^verbatim>\<open>create_affinity_yaml\<close>: the configuration it writes to the YAML file.\<close>

definition create_affinity_yaml ::
  "string \<Rightarrow> string option \<Rightarrow> string option \<Rightarrow> string \<Rightarrow> string \<Rightarrow> pyval"
where
  "create_affinity_yaml protein_sequence ligand_smiles ligand_ccd pid lid =
     PDict [(''version'', PInt 1),
            (''sequences'',
               PList [PDict [(''protein'',
                         PDict [(''id'', PStr pid), (''sequence'', PStr protein_sequence)])],
                      PDict [(''ligand'',
                         PDict ((''id'', PStr lid) #
                                (if truthy ligand_ccd then [(''ccd'', opt_str ligand_ccd)]
                                 else [(''smiles'', opt_str ligand_smiles)])))]]),
            (''properties'',
               PList [PDict [(''affinity'', PDict [(''binder'', PStr lid)])]])]"

text \<open>\<^verbatim>\<open>run_boltz_affinity_command\<close>: the same command list and the same two outcomes as
  \<^verbatim>\<open>run_boltz_command\<close>.\<close>

definition run_boltz_affinity_command ::
  "world \<Rightarrow> string \<Rightarrow> string \<Rightarrow> bool \<Rightarrow> bool \<Rightarrow> string \<Rightarrow> (py_exn + pydict) \<times> effect list"
where
  "run_boltz_affinity_command w input_yaml output_dir msa potentials fmt =
     (let cmd = boltz_cmd input_yaml output_dir msa potentials fmt
      in (case run_process w cmd of
            NotStarted e \<Rightarrow> Inl e
          | Exited returncode out err \<Rightarrow>
              if returncode = 0
              then Inr [(''success'', PBool True),
                        (''stdout'', PStr out),
                        (''stderr'', PStr err),
                        (''command'', PStr (py_join '' '' cmd))]
              else Inr [(''success'', PBool False),
                        (''error'', PStr (called_process_error_str w cmd returncode)),
                        (''stderr'', PStr err),
                        (''command'', PStr (py_join '' '' cmd))],
          [Spawn cmd]))"

text \<open>The result dictionary \<^verbatim>\<open>run_affinity_prediction\<close> prepares (from
  \<^verbatim>\<open># Prepare result\<close> to the end of the function).\<close>

definition affinity_result ::
  "pydict \<Rightarrow> string option \<Rightarrow> string option \<Rightarrow> string option \<Rightarrow> string option \<Rightarrow> string \<Rightarrow>
   pyval \<Rightarrow> pydict \<Rightarrow> affinity_config \<Rightarrow> py_exn + pydict"
where
  "affinity_result prediction_result input_file protein_sequence ligand_smiles ligand_ccd
     output_dir affinity_values output_files cfg =
     (case map_of prediction_result ''success'' of
        None \<Rightarrow> Inl (OtherError ''KeyError: success'')
      | Some success \<Rightarrow>
         let result =
           [(''success'', success),
            (''result'', PDict
               [(''command_output'', dict_get prediction_result ''stdout'' (PStr [])),
                (''command_used'', dict_get prediction_result ''command'' (PStr [])),
                (''affinity_values'', affinity_values),
                (''protein_length'',
                   (case protein_sequence of
                      Some s \<Rightarrow> if s \<noteq> [] then PInt (int (length s)) else PNone
                    | None \<Rightarrow> PNone)),
                (''ligand_input'',
                   (if truthy ligand_smiles then opt_str ligand_smiles else opt_str ligand_ccd)),
                (''ligand_type'',
                   (if truthy ligand_smiles then PStr ''smiles''
                    else if truthy ligand_ccd then PStr ''ccd'' else PNone)),
                (''input_source'',
                   PStr (if truthy protein_sequence then ''sequence+ligand'' else ''file''))]),
            (''output_dir'', PStr output_dir),
            (''output_files'', PDict output_files),
            (''metadata'', PDict
               [(''config'', affinity_config_dict cfg),
                (''input_file'', (case input_file of Some p \<Rightarrow> PStr p | None \<Rightarrow> PNone)),
                (''protein_sequence'', shown_sequence protein_sequence),
                (''ligand_smiles'', opt_str ligand_smiles),
                (''ligand_ccd'', opt_str ligand_ccd)])]
         in if \<not> py_truth success
            then Inr (result @
                   [(''error'', dict_get prediction_result ''error'' (PStr ''Unknown error'')),
                    (''stderr'', dict_get prediction_result ''stderr'' (PStr []))])
            else Inr result)"

text \<open>\<^verbatim>\<open>run_affinity_prediction\<close>, in the same two parts as
  \<^verbatim>\<open>run_structure_prediction\<close>.\<close>

definition affinity_run ::
  "world \<Rightarrow> affinity_config \<Rightarrow> string option \<Rightarrow> string option \<Rightarrow> string option \<Rightarrow>
   string option \<Rightarrow> string \<Rightarrow> string \<Rightarrow> bool \<Rightarrow> effect list \<Rightarrow>
   (py_exn + pydict) \<times> effect list"
where
  "affinity_run w cfg input_file protein_sequence ligand_smiles ligand_ccd output_dir
     input_yaml_path cleanup_temp fx =
     (case run_boltz_affinity_command w input_yaml_path output_dir
             (use_msa_server cfg) (use_potentials cfg) (output_format cfg) of
        (Inl e, spawned) \<Rightarrow> (Inl e, fx @ spawned)
      | (Inr prediction_result, spawned) \<Rightarrow>
          let affinity_values = found_affinity_values w output_dir;
              output_files = found_output_files w output_dir;
              result = affinity_result prediction_result input_file protein_sequence
                         ligand_smiles ligand_ccd output_dir affinity_values output_files cfg
          in if cleanup_temp \<and> path_exists w input_yaml_path
             then (case os_raises w (Unlink input_yaml_path) of
                     Some e \<Rightarrow> (Inl e, fx @ spawned @ [Unlink input_yaml_path])
                   | None \<Rightarrow> (result, fx @ spawned @ [Unlink input_yaml_path]))
             else (result, fx @ spawned))"

definition run_affinity_prediction ::
  "world \<Rightarrow> string option \<Rightarrow> string option \<Rightarrow> string option \<Rightarrow> string option \<Rightarrow>
   string option \<Rightarrow> affinity_config_update \<Rightarrow> affinity_config_update \<Rightarrow>
   (py_exn + pydict) \<times> effect list"
where
  "run_affinity_prediction w input_file protein_sequence ligand_smiles ligand_ccd output_dir
     config kwargs =
     (let cfg = merge_affinity_config (merge_affinity_config DEFAULT_CONFIG_affinity config)
                  kwargs in
      if truthy input_file
         \<and> (truthy protein_sequence \<or> truthy ligand_smiles \<or> truthy ligand_ccd)
      then (Inl (ValueError
              ''Provide either input_file OR (protein_sequence + ligand), not both''), [])
      else if \<not> truthy input_file \<and> \<not> truthy protein_sequence
      then (Inl (ValueError
              ''Must provide protein_sequence when not using input_file''), [])
      else if \<not> truthy input_file \<and> \<not> truthy ligand_smiles \<and> \<not> truthy ligand_ccd
      then (Inl (ValueError
              ''Must provide either ligand_smiles or ligand_ccd when not using input_file''),
            [])
      else
       let out = path_str w (if truthy output_dir then the output_dir
                              else ''./boltz_affinity_output'')
       in case os_raises w (Mkdir out) of
            Some e \<Rightarrow> (Inl e, [Mkdir out])
          | None \<Rightarrow>
             if truthy input_file
             then
               let infile = path_str w (the input_file)
               in if \<not> path_exists w infile
                  then (Inl (FileNotFoundError (''Input file not found: '' @ infile)),
                        [Mkdir out])
                  else affinity_run w cfg (Some infile) protein_sequence ligand_smiles
                         ligand_ccd out infile False [Mkdir out]
             else
               let temp_yaml = path_join w out (temp_prefix cfg @ ''.yaml'');
                   write = WriteYaml temp_yaml
                             (create_affinity_yaml (the protein_sequence) ligand_smiles
                                ligand_ccd (protein_id cfg) (ligand_id cfg))
               in case os_raises w write of
                    Some e \<Rightarrow> (Inl e, [Mkdir out, write])
                  | None \<Rightarrow>
                      affinity_run w cfg None protein_sequence ligand_smiles ligand_ccd out
                        temp_yaml True [Mkdir out, write])"

section \<open>The synchronous tools of \<^verbatim>\<open>src/server.py\<close>\<close>

text \<open>\<^verbatim>\<open>simple_structure_prediction\<close>: the call of \<^verbatim>\<open>run_structure_prediction\<close> with no
  \<^verbatim>\<open>config\<close> and the keywords \<^verbatim>\<open>use_msa_server\<close> and \<^verbatim>\<open>output_format\<close>, inside
  \<^verbatim>\<open>try\<close>: a returned dictionary gets the entry \<^verbatim>\<open>"status": "success"\<close> in front, an
  exception becomes an error dictionary.\<close>

definition error_dict :: "string \<Rightarrow> pydict" where
  "error_dict msg = [(''status'', PStr ''error''), (''error'', PStr msg)]"

fun caught :: "py_exn \<Rightarrow> pydict" where
  "caught (FileNotFoundError m) = error_dict (''File not found: '' @ m)"
| "caught (ValueError m) = error_dict (''Invalid input: '' @ m)"
| "caught (OtherError m) = error_dict m"

definition simple_structure_prediction ::
  "world \<Rightarrow> string option \<Rightarrow> string option \<Rightarrow> string option \<Rightarrow> bool \<Rightarrow> string \<Rightarrow>
   pydict \<times> effect list"
where
  "simple_structure_prediction w input_file sequence output_dir msa fmt =
     (case run_structure_prediction w input_file sequence output_dir no_update
             (no_update\<lparr>set_use_msa_server := Some msa, set_output_format := Some fmt\<rparr>) of
        (Inr result, fx) \<Rightarrow> ((''status'', PStr ''success'') # result, fx)
      | (Inl e, fx) \<Rightarrow> (caught e, fx))"

section \<open>The job manager\<close>

text \<open>
  \<^verbatim>\<open>src/server.py\<close> imports \<^verbatim>\<open>job_manager\<close> from \<^verbatim>\<open>jobs.manager\<close> and hands every job
  operation to it; that module is not among the sources. This section models it from the
  specification (sections 3, 4 and 6). The tools \<^verbatim>\<open>get_job_status\<close>,
  \<^verbatim>\<open>get_job_result\<close>, \<^verbatim>\<open>get_job_log\<close> and \<^verbatim>\<open>cancel_job\<close> of the server return what
  the manager's operation of the same name returns (\<open>getJobStatus\<close>, \<open>getJobResult\<close>,
  \<open>getJobLog\<close>, \<open>cancelJob\<close> below), and the submit tools call its \<^verbatim>\<open>submit_job\<close>
  (\<open>submitJob\<close>). Identifiers are opaque, here natural numbers drawn from a counter; a
  time stamp is a reading of a clock that the caller passes; a process handle is a number.
\<close>

text \<open>Modelled from the spec: the five statuses of a job record (section 3), missing with
  \<^verbatim>\<open>jobs/manager.py\<close>.\<close>

datatype status = Pending | Running | Completed | Failed | Cancelled

text \<open>Modelled from the spec: the error kinds of section 7 with which an operation of the
  manager fails towards its caller, missing with \<^verbatim>\<open>jobs/manager.py\<close>.\<close>

datatype api_error = NotFound | InvalidArgument | InvalidTransition | NotReady

text \<open>Modelled from the spec: the values of the \<open>args\<close> mapping of a command, missing with
  \<^verbatim>\<open>jobs/manager.py\<close> (section 3: "argument keys to values (string) or boolean flags
  (presence-only)"; section 6 adds \<open>None\<close>).\<close>

datatype arg_value = StringValue string | BooleanFlag bool | NoneValue

type_synonym job_args = "(string \<times> arg_value) list"

text \<open>Modelled from the spec: the job record of section 3, missing with
  \<^verbatim>\<open>jobs/manager.py\<close>.\<close>

record JobRecord =
  job_id :: nat
  name :: string
  command :: "string \<times> job_args"
  status :: status
  createdAt :: nat
  startedAt :: "nat option"
  finishedAt :: "nat option"
  processHandle :: "nat option"
  exitCode :: "int option"
  result :: "pyval option"
  error :: "string option"
  logHandle :: nat

text \<open>Modelled from the spec: the registry (the map from identifier to record), the
  identifier generator's counter and the log sink (the lines recorded per log handle),
  missing with \<^verbatim>\<open>jobs/manager.py\<close>.\<close>

record Registry =
  jobs :: "nat \<rightharpoonup> JobRecord"
  nextId :: nat
  logs :: "nat \<Rightarrow> string list"

text \<open>Modelled from the spec: the registry of a freshly started service, missing with
  \<^verbatim>\<open>jobs/manager.py\<close>: no record, no identifier issued, no log line.\<close>

definition empty_registry :: Registry where
  "empty_registry = \<lparr>jobs = Map.empty, nextId = 0, logs = (\<lambda>_. [])\<rparr>"

text \<open>Modelled from the spec: the terminal states of section 4.2 ("All of completed,
  failed, cancelled are terminal").\<close>

definition terminal :: "status \<Rightarrow> bool" where
  "terminal s = (s = Completed \<or> s = Failed \<or> s = Cancelled)"

text \<open>Modelled from the spec: the edges of the state machine of section 4.2,
  \<open>pending \<rightarrow> running \<rightarrow> {completed | failed | cancelled}\<close> and \<open>pending \<rightarrow> cancelled\<close>.\<close>

definition allowed :: "status \<Rightarrow> status \<Rightarrow> bool" where
  "allowed a b =
     ((a = Pending \<and> b = Running) \<or> (a = Running \<and> terminal b)
      \<or> (a = Pending \<and> b = Cancelled))"

text \<open>Modelled from the spec: the transitions the registry makes: the edges of section 4.2
  and the one of section 4.3, step 5, \<open>pending \<rightarrow> failed\<close>, taken when the process
  could not be spawned.\<close>

definition transition :: "status \<Rightarrow> status \<Rightarrow> bool" where
  "transition a b = (allowed a b \<or> (a = Pending \<and> b = Failed))"

text \<open>Modelled from the spec: \<open>newId\<close> of section 4.1, missing with \<^verbatim>\<open>jobs/manager.py\<close>:
  a monotonically increasing counter.\<close>

definition newId :: "Registry \<Rightarrow> nat \<times> Registry" where
  "newId reg = (nextId reg, reg\<lparr>nextId := Suc (nextId reg)\<rparr>)"

text \<open>Modelled from the spec: \<open>create\<close> of section 4.2, missing with \<^verbatim>\<open>jobs/manager.py\<close>:
  "allocates an id, writes a pending record, returns it"; the log handle is created at
  submission.\<close>

definition create :: "Registry \<Rightarrow> nat \<Rightarrow> string \<times> job_args \<Rightarrow> string \<Rightarrow> JobRecord \<times> Registry" where
  "create reg now cmd nm =
     (case newId reg of
        (i, reg1) \<Rightarrow>
          let r = \<lparr>job_id = i, name = nm, command = cmd, status = Pending, createdAt = now,
                   startedAt = None, finishedAt = None, processHandle = None,
                   exitCode = None, result = None, error = None, logHandle = i\<rparr>
          in (r, reg1\<lparr>jobs := (jobs reg1)(i \<mapsto> r), logs := (logs reg1)(i := [])\<rparr>))"

text \<open>Modelled from the spec: \<open>get\<close> of section 4.2, missing with \<^verbatim>\<open>jobs/manager.py\<close>:
  "fails with NotFound if no such id exists".\<close>

definition get :: "Registry \<Rightarrow> nat \<Rightarrow> api_error + JobRecord" where
  "get reg i = (case jobs reg i of None \<Rightarrow> Inl NotFound | Some r \<Rightarrow> Inr r)"

text \<open>Modelled from the spec: \<open>markRunning\<close> of section 4.2, missing with
  \<^verbatim>\<open>jobs/manager.py\<close>: "fails with InvalidTransition if the record is not currently
  pending"; \<open>startedAt\<close> and the process handle are set.\<close>

definition markRunning :: "Registry \<Rightarrow> nat \<Rightarrow> nat \<Rightarrow> nat \<Rightarrow> (api_error + unit) \<times> Registry" where
  "markRunning reg now i handle =
     (case jobs reg i of
        None \<Rightarrow> (Inl NotFound, reg)
      | Some r \<Rightarrow>
          if status r \<noteq> Pending then (Inl InvalidTransition, reg)
          else (Inr (),
                reg\<lparr>jobs := (jobs reg)(i \<mapsto>
                  r\<lparr>status := Running, startedAt := Some now,
                    processHandle := Some handle\<rparr>)\<rparr>))"

text \<open>Modelled from the spec: \<open>markTerminal\<close> of section 4.2, missing with
  \<^verbatim>\<open>jobs/manager.py\<close>: "fails with InvalidTransition if the record is not currently
  running (or pending, for direct cancellation). Sets finishedAt." A pending record is
  also taken to \<open>failed\<close>: that is the call the executor makes when spawning fails
  (section 4.3, step 5: "calls markTerminal(failed) directly without ever reaching
  running"; section 7: a spawn failure is "surfaced as job status failed"). The status
  given is one of the three terminal ones, any other is refused. The process handle is
  cleared; the exit code is kept on completed and failed only, a result on completed only
  and an error on failed and cancelled only (section 3).\<close>

definition markTerminal ::
  "Registry \<Rightarrow> nat \<Rightarrow> nat \<Rightarrow> status \<Rightarrow> int option \<Rightarrow> string + pyval \<Rightarrow>
   (api_error + unit) \<times> Registry"
where
  "markTerminal reg now i st code payload =
     (case jobs reg i of
        None \<Rightarrow> (Inl NotFound, reg)
      | Some r \<Rightarrow>
          if \<not> terminal st then (Inl InvalidTransition, reg)
          else if \<not> (status r = Running
                      \<or> (status r = Pending \<and> (st = Cancelled \<or> st = Failed)))
          then (Inl InvalidTransition, reg)
          else (Inr (),
                reg\<lparr>jobs := (jobs reg)(i \<mapsto>
                  r\<lparr>status := st, finishedAt := Some now, processHandle := None,
                    exitCode := (if st = Cancelled then None else code),
                    result := (case payload of
                                 Inr v \<Rightarrow> if st = Completed then Some v else None
                               | Inl e \<Rightarrow> None),
                    error := (case payload of
                                Inl e \<Rightarrow> if st = Completed then None else Some e
                              | Inr v \<Rightarrow> None)\<rparr>)\<rparr>))"

text \<open>Modelled from the spec: \<open>append\<close> of the log sink (section 4.4), missing with
  \<^verbatim>\<open>jobs/manager.py\<close>: a line is added to the entry of a job; once the job is terminal
  its log is frozen (section 3).\<close>

definition append_log :: "Registry \<Rightarrow> nat \<Rightarrow> string \<Rightarrow> Registry" where
  "append_log reg i line =
     (case jobs reg i of
        None \<Rightarrow> reg
      | Some r \<Rightarrow>
          if terminal (status r) then reg
          else reg\<lparr>logs := (logs reg)(logHandle r := logs reg (logHandle r) @ [line])\<rparr>)"

text \<open>Modelled from the spec: \<open>tail\<close> of the log sink (section 4.4), missing with
  \<^verbatim>\<open>jobs/manager.py\<close>: "n=0 means all lines", and for \<open>n > 0\<close> "at most the last n lines
  currently recorded"; an entry nothing was written to is the empty sequence.\<close>

definition tail :: "Registry \<Rightarrow> nat \<Rightarrow> nat \<Rightarrow> string list" where
  "tail reg handle n =
     (let ls = logs reg handle in if n = 0 then ls else drop (length ls - n) ls)"

text \<open>Modelled from the spec: the argument flattening of sections 4.3 and 6, missing with
  \<^verbatim>\<open>jobs/manager.py\<close>: "string-valued entries become \<open>--key value\<close>, boolean entries
  become a bare \<open>--key\<close> when true", "None/absent keys are omitted". A flag is
  presence-only (section 3), so a false one contributes nothing.\<close>

fun flatten_arg :: "string \<times> arg_value \<Rightarrow> string list" where
  "flatten_arg (k, StringValue v) = [''--'' @ k, v]"
| "flatten_arg (k, BooleanFlag b) = (if b then [''--'' @ k] else [])"
| "flatten_arg (k, NoneValue) = []"

text \<open>Modelled from the spec: the flattened argument list of a whole \<open>args\<close> mapping
  (sections 4.3 and 6), missing with \<^verbatim>\<open>jobs/manager.py\<close>: the entries in order.\<close>

definition flatten_args :: "job_args \<Rightarrow> string list" where
  "flatten_args args = concat (map flatten_arg args)"

text \<open>Modelled from the spec: the command line of a job (section 6:
  "<scriptPath> [--key value | --flag]..."), missing with \<^verbatim>\<open>jobs/manager.py\<close>.\<close>

definition command_line :: "JobRecord \<Rightarrow> string list" where
  "command_line r = fst (command r) # flatten_args (snd (command r))"

text \<open>Modelled from the spec: the process executor of section 4.3, missing with
  \<^verbatim>\<open>jobs/manager.py\<close>. Its asynchronous run reaches the registry in three kinds of step:
  the spawn, a line of output (step 2, \<open>append_log\<close>) and the exit. Each step is a call
  of the registry, which decides whether the transition is made. The spawn step: step 1
  calls \<open>markRunning\<close> with the new process; step 5, when spawning fails, calls
  \<open>markTerminal(failed)\<close> with the failure as the error, and the record goes from
  pending to failed.\<close>

definition executor_spawn :: "Registry \<Rightarrow> nat \<Rightarrow> nat \<Rightarrow> string + nat \<Rightarrow> Registry" where
  "executor_spawn reg now i spawned =
     (case spawned of
        Inr handle \<Rightarrow> snd (markRunning reg now i handle)
      | Inl failure \<Rightarrow> snd (markTerminal reg now i Failed None (Inl failure)))"

text \<open>Modelled from the spec: the exit step of the process executor (section 4.3, step 4),
  missing with \<^verbatim>\<open>jobs/manager.py\<close>: exit code 0 marks the record completed with the
  result, any other code marks it failed with the captured standard error.\<close>

definition executor_exit :: "Registry \<Rightarrow> nat \<Rightarrow> nat \<Rightarrow> int \<Rightarrow> pyval \<Rightarrow> string \<Rightarrow> Registry" where
  "executor_exit reg now i code out err =
     (if code = 0 then snd (markTerminal reg now i Completed (Some 0) (Inr out))
      else snd (markTerminal reg now i Failed (Some code) (Inl err)))"

text \<open>Modelled from the spec: \<open>cancel\<close> of section 4.3, missing with \<^verbatim>\<open>jobs/manager.py\<close>:
  a running job's process is terminated and the record becomes cancelled, a pending job
  is marked cancelled without ever spawning, and "cancelling an already-terminal job is a
  no-op that reports the existing terminal status rather than an error".\<close>

definition cancel :: "Registry \<Rightarrow> nat \<Rightarrow> JobRecord \<Rightarrow> status \<times> Registry" where
  "cancel reg now r =
     (if terminal (status r) then (status r, reg)
      else (Cancelled,
            snd (markTerminal reg now (job_id r) Cancelled None (Inl ''cancelled''))))"

text \<open>Modelled from the spec: \<open>submitJob\<close> of the facade (section 4.5), missing with
  \<^verbatim>\<open>jobs/manager.py\<close>: "fails with InvalidArgument if scriptPath is empty"; otherwise the
  record is created pending and the call returns its id.\<close>

definition submitJob ::
  "Registry \<Rightarrow> nat \<Rightarrow> string \<Rightarrow> job_args \<Rightarrow> string \<Rightarrow> (api_error + nat) \<times> Registry"
where
  "submitJob reg now scriptPath args jobName =
     (if scriptPath = [] then (Inl InvalidArgument, reg)
      else case create reg now (scriptPath, args) jobName of
             (r, reg1) \<Rightarrow> (Inr (job_id r), reg1))"

text \<open>Modelled from the spec: \<open>getJobStatus\<close> of the facade (section 4.5), missing with
  \<^verbatim>\<open>jobs/manager.py\<close>: status and time stamps, "fails with NotFound".\<close>

definition getJobStatus ::
  "Registry \<Rightarrow> nat \<Rightarrow> api_error + status \<times> nat \<times> nat option \<times> nat option"
where
  "getJobStatus reg i =
     (case get reg i of
        Inl e \<Rightarrow> Inl e
      | Inr r \<Rightarrow> Inr (status r, createdAt r, startedAt r, finishedAt r))"

text \<open>Modelled from the spec: \<open>getJobResult\<close> of the facade (section 4.5), missing with
  \<^verbatim>\<open>jobs/manager.py\<close>: "fails with NotFound; fails with NotReady if status is not yet
  terminal; returns the stored error payload (not a hard failure of the call itself) if
  status is failed/cancelled". What it returns is the stored result or the stored error.\<close>

datatype job_outcome = ResultPayload "pyval option" | ErrorPayload "string option"

definition getJobResult :: "Registry \<Rightarrow> nat \<Rightarrow> api_error + job_outcome" where
  "getJobResult reg i =
     (case get reg i of
        Inl e \<Rightarrow> Inl e
      | Inr r \<Rightarrow>
          if \<not> terminal (status r) then Inl NotReady
          else if status r = Completed then Inr (ResultPayload (result r))
          else Inr (ErrorPayload (error r)))"

text \<open>Modelled from the spec: \<open>getJobLog\<close> of the facade (section 4.5), missing with
  \<^verbatim>\<open>jobs/manager.py\<close>: the lines \<open>tail\<close> gives and the total number of lines; "fails
  with NotFound".\<close>

definition getJobLog :: "Registry \<Rightarrow> nat \<Rightarrow> nat \<Rightarrow> api_error + string list \<times> nat" where
  "getJobLog reg i n =
     (case get reg i of
        Inl e \<Rightarrow> Inl e
      | Inr r \<Rightarrow> Inr (tail reg (logHandle r) n, length (logs reg (logHandle r))))"

text \<open>Modelled from the spec: \<open>cancelJob\<close> of the facade (section 4.5), missing with
  \<^verbatim>\<open>jobs/manager.py\<close>: "fails with NotFound; idempotent as described in 4.3"; the status
  after the cancellation is returned.\<close>

definition cancelJob :: "Registry \<Rightarrow> nat \<Rightarrow> nat \<Rightarrow> (api_error + status) \<times> Registry" where
  "cancelJob reg now i =
     (case get reg i of
        Inl e \<Rightarrow> (Inl e, reg)
      | Inr r \<Rightarrow> (case cancel reg now r of (s, reg1) \<Rightarrow> (Inr s, reg1)))"

text \<open>Modelled from the spec: the calls that reach the manager over its lifetime, each
  made at a clock reading: what a caller of the facade or the executor can ask of it, and
  the two registry operations themselves.\<close>

datatype call =
    Submit string job_args string
  | Spawned nat "string + nat"
  | Output nat string
  | Exit nat int pyval string
  | MarkRunning nat nat
  | MarkTerminal nat status "int option" "string + pyval"
  | CancelJob nat

text \<open>Modelled from the spec: the registry after one such call (the answer to the caller
  is dropped).\<close>

fun perform :: "Registry \<Rightarrow> nat \<times> call \<Rightarrow> Registry" where
  "perform reg (now, Submit scriptPath args jobName) =
     snd (submitJob reg now scriptPath args jobName)"
| "perform reg (now, Spawned i spawned) = executor_spawn reg now i spawned"
| "perform reg (now, Output i line) = append_log reg i line"
| "perform reg (now, Exit i code out err) = executor_exit reg now i code out err"
| "perform reg (now, MarkRunning i handle) = snd (markRunning reg now i handle)"
| "perform reg (now, MarkTerminal i st code payload) =
     snd (markTerminal reg now i st code payload)"
| "perform reg (now, CancelJob i) = snd (cancelJob reg now i)"



text \<open>Modelled from the spec: the manager after a sequence of calls, starting from the
  empty registry of a freshly started service (section 9: the registry is constructed once
  at service startup).\<close>

definition manager_after :: "(nat \<times> call) list \<Rightarrow> Registry" where
  "manager_after calls = foldl perform empty_registry calls"

text \<open>A registry is consistent when every record is stored under its own identifier and
  every stored identifier has been issued.\<close>

definition consistent :: "Registry \<Rightarrow> bool" where
  "consistent reg = (\<forall>i r. jobs reg i = Some r \<longrightarrow> job_id r = i \<and> i < nextId reg)"

section \<open>The submit tools of \<^verbatim>\<open>src/server.py\<close>\<close>

text \<open>
  A submit tool builds the \<^verbatim>\<open>args\<close> dictionary and passes it to
  \<^verbatim>\<open>job_manager.submit_job\<close>, here \<open>submitJob\<close>; a submission without an input source
  returns an error dictionary before the manager is reached. The reply is that error
  dictionary (\<^verbatim>\<open>{"status": "error", "error": msg}\<close>) or whatever the manager answered.
  The keys of \<^verbatim>\<open>args\<close> are distinct, so the dictionary is the list of its entries in the
  order they are added. \<open>scripts_dir\<close> is the constant \<^verbatim>\<open>SCRIPTS_DIR\<close>, the directory of
  the scripts.
\<close>

datatype tool_reply = ErrorReply string | ManagerReply "api_error + nat"

definition submit_structure_prediction ::
  "string \<Rightarrow> Registry \<Rightarrow> nat \<Rightarrow> string option \<Rightarrow> string option \<Rightarrow> string option \<Rightarrow>
   bool \<Rightarrow> bool \<Rightarrow> string \<Rightarrow> string option \<Rightarrow> tool_reply \<times> Registry"
where
  "submit_structure_prediction scripts_dir reg now input_file sequence output_dir
     msa potentials fmt job_name =
     (let script_path = scripts_dir @ ''/structure_prediction.py'';
          args0 = [(''output_format'', StringValue fmt)]
      in if \<not> truthy input_file \<and> \<not> truthy sequence
         then (ErrorReply ''Must provide either input_file or sequence'', reg)
         else
          let args1 = args0 @ (if truthy input_file
                               then [(''input'', StringValue (the input_file))]
                               else [(''sequence'', StringValue (the sequence))]);
              args2 = args1 @ (if truthy output_dir
                               then [(''output'', StringValue (the output_dir))] else []);
              args3 = args2 @ (if \<not> msa then [(''no-msa-server'', BooleanFlag True)] else []);
              args4 = args3 @ (if potentials then [(''use-potentials'', BooleanFlag True)]
                               else [])
          in case submitJob reg now script_path args4
                    (if truthy job_name then the job_name else ''structure_prediction'') of
               (answer, reg1) \<Rightarrow> (ManagerReply answer, reg1))"

definition submit_affinity_prediction ::
  "string \<Rightarrow> Registry \<Rightarrow> nat \<Rightarrow> string option \<Rightarrow> string option \<Rightarrow> string option \<Rightarrow>
   string option \<Rightarrow> string option \<Rightarrow> bool \<Rightarrow> bool \<Rightarrow> string \<Rightarrow> string option \<Rightarrow>
   tool_reply \<times> Registry"
where
  "submit_affinity_prediction scripts_dir reg now input_file protein_sequence ligand_smiles
     ligand_ccd output_dir msa potentials fmt job_name =
     (let script_path = scripts_dir @ ''/affinity_prediction.py'';
          args0 = [(''output_format'', StringValue fmt)]
      in if \<not> truthy input_file
            \<and> \<not> (truthy protein_sequence \<and> (truthy ligand_smiles \<or> truthy ligand_ccd))
         then (ErrorReply ''Must provide either input_file OR (protein_sequence + ligand)'',
               reg)
         else
          let args1 = args0 @
                (if truthy input_file
                 then [(''input'', StringValue (the input_file))]
                 else [(''protein-seq'', StringValue (the protein_sequence))]
                      @ (if truthy ligand_smiles
                         then [(''ligand-smiles'', StringValue (the ligand_smiles))] else [])
                      @ (if truthy ligand_ccd
                         then [(''ligand-ccd'', StringValue (the ligand_ccd))] else []));
              args2 = args1 @ (if truthy output_dir
                               then [(''output'', StringValue (the output_dir))] else []);
              args3 = args2 @ (if \<not> msa then [(''no-msa-server'', BooleanFlag True)] else []);
              args4 = args3 @ (if potentials then [(''use-potentials'', BooleanFlag True)]
                               else [])
          in case submitJob reg now script_path args4
                    (if truthy job_name then the job_name else ''affinity_prediction'') of
               (answer, reg1) \<Rightarrow> (ManagerReply answer, reg1))"

section \<open>The command-line parsers of the scripts\<close>

text \<open>
  \<^verbatim>\<open>main\<close> of each script declares its options with \<^verbatim>\<open>argparse\<close>: the option
  strings, whether the option takes a value (\<^verbatim>\<open>store_true\<close> options take none) and the
  choices a value is held to. \<^verbatim>\<open>-h/--help\<close> is the option \<^verbatim>\<open>argparse\<close> adds itself.
  An argument that starts with \<^verbatim>\<open>--\<close> is recognised when it is one of the option
  strings, or when it is the beginning of exactly one of them (an abbreviation); anything
  else ends the script with "unrecognized arguments" and exit code 2.
\<close>

record cli_option =
  option_strings :: "string list"
  takes_value :: bool
  choices :: "string list option"

definition opt :: "string list \<Rightarrow> bool \<Rightarrow> string list option \<Rightarrow> cli_option" where
  "opt names val chs = \<lparr>option_strings = names, takes_value = val, choices = chs\<rparr>"

definition structure_parser :: "cli_option list" where
  "structure_parser =
     [opt [''-h'', ''--help''] False None,
      opt [''--input'', ''-i''] True None,
      opt [''--sequence'', ''-s''] True None,
      opt [''--output'', ''-o''] True None,
      opt [''--config'', ''-c''] True None,
      opt [''--no-msa-server''] False None,
      opt [''--use-potentials''] False None,
      opt [''--output-format''] True (Some [''pdb'', ''cif''])]"

definition affinity_parser :: "cli_option list" where
  "affinity_parser =
     [opt [''-h'', ''--help''] False None,
      opt [''--input'', ''-i''] True None,
      opt [''--protein-seq''] True None,
      opt [''--ligand-smiles''] True None,
      opt [''--ligand-ccd''] True None,
      opt [''--output'', ''-o''] True None,
      opt [''--config'', ''-c''] True None,
      opt [''--no-msa-server''] False None,
      opt [''--use-potentials''] False None,
      opt [''--output-format''] True (Some [''pdb'', ''cif''])]"

definition recognises :: "cli_option list \<Rightarrow> string \<Rightarrow> bool" where
  "recognises parser arg =
     (let known = concat (map option_strings parser)
      in arg \<in> set known
         \<or> (take 2 arg = ''--'' \<and> length (filter (prefix arg) known) = 1))"

text \<open>The flags of a command line: its arguments that start with \<^verbatim>\<open>--\<close>.\<close>

definition flags_of :: "string list \<Rightarrow> string list" where
  "flags_of cmdline = filter (\<lambda>a. take 2 a = ''--'') cmdline"

section \<open>A world for concrete runs\<close>

text \<open>Paths are rendered as they are written, every path exists, no file-system call
  raises, and the child comes to the given outcome.\<close>

definition quiet_world :: "proc_outcome \<Rightarrow> world" where
  "quiet_world outcome =
     \<lparr>path_str = (\<lambda>p. p),
      path_join = (\<lambda>a b. a @ ''/'' @ b),
      path_exists = (\<lambda>_. True),
      os_raises = (\<lambda>_. None),
      run_process = (\<lambda>_. outcome),
      called_process_error_str = (\<lambda>cmd rc. ''Command returned non-zero exit status''),
      found_output_files = (\<lambda>_. []),
      found_affinity_values = (\<lambda>_. PDict [])\<rparr>"

text \<open>What a returned dictionary reports: a result payload, and success without an error
  entry, or failure with the error and the standard error of a process that exited with a
  code other than 0.\<close>

abbreviation reports :: "world \<Rightarrow> pydict \<Rightarrow> bool" where
  "reports w res \<equiv>
     (\<exists>payload. map_of res ''result'' = Some (PDict payload))
     \<and> (map_of res ''success'' = Some (PBool True) \<and> map_of res ''error'' = None
        \<or> map_of res ''success'' = Some (PBool False)
          \<and> (\<exists>cmd returncode out err.
                run_process w cmd = Exited returncode out err \<and> returncode \<noteq> 0
              \<and> map_of res ''error'' = Some (PStr (called_process_error_str w cmd returncode))
              \<and> map_of res ''stderr'' = Some (PStr err)))"

section \<open>Properties of \<open>validate_protein_sequence\<close>\<close>

lemma composition_loop_other:
  "aa \<notin> set letters \<Longrightarrow> composition_loop fl clean letters dict aa = dict aa"
  by (induction letters arbitrary: dict) (auto simp: Let_def)

lemma composition_loop_entry:
  "distinct letters \<Longrightarrow> aa \<in> set letters \<Longrightarrow>
   composition_loop fl clean letters dict aa =
     (if count_list clean aa > 0
      then Some \<lparr>count = count_list clean aa,
                 percentage =
                   round_ndigits fl
                     (times_int fl (truediv fl (count_list clean aa) (length clean)) 100) 2\<rparr>
      else dict aa)"
proof (induction letters arbitrary: dict)
  case Nil
  then show ?case by simp
next
  case (Cons x xs)
  show ?case
  proof (cases "aa = x")
    case True
    with Cons.prems have "aa \<notin> set xs" by simp
    then show ?thesis using True
      by (simp add: Let_def composition_loop_other)
  next
    case False
    with Cons.prems have "distinct xs" "aa \<in> set xs" by simp_all
    then show ?thesis using Cons.IH False
      by (simp add: Let_def)
  qed
qed

lemma distinct_valid_aa_letters: "distinct valid_aa_letters"
  by (simp add: valid_aa_letters_def ascii_def)

lemma count_list_0_iff_notin: "count_list xs x = 0 \<longleftrightarrow> x \<notin> set xs"
  by (induction xs) auto

lemma py_upper_space:
  assumes "\<forall>c. is_space db c \<longrightarrow> (\<forall>u \<in> set (upper_of db c). is_space db u)"
      and "\<forall>c \<in> set s. is_space db c"
  shows "\<forall>u \<in> set (py_upper db s). is_space db u"
  using assms by (auto simp: py_upper_def)

text \<open>
  Claim C10. For every input string, \<open>valid\<close> holds exactly when the upper-cased input
  with its white space removed consists of the twenty letters ACDEFGHIKLMNPQRSTVWY only;
  the empty input, and every input of white space only (upper-casing white space gives
  white space), is valid, of length 0 and with an empty composition; a letter has a
  composition entry exactly when it is one of the twenty and occurs, the entry holds its
  number of occurrences, and its percentage is that count divided by the clean length,
  times 100, rounded to two digits.
\<close>

theorem validate_protein_sequence_spec:
  "let r = validate_protein_sequence db fl sequence;
       clean = strip_whitespace db (py_upper db sequence)
   in validation.status r = ''success''
    \<and> clean_sequence r = clean
    \<and> sequence_length r = length clean
    \<and> (valid r \<longleftrightarrow> set clean \<subseteq> set (ascii ''ACDEFGHIKLMNPQRSTVWY''))
    \<and> (sequence = [] \<longrightarrow>
          valid r \<and> sequence_length r = 0 \<and> composition r = Map.empty)
    \<and> ((\<forall>c. is_space db c \<longrightarrow> (\<forall>u \<in> set (upper_of db c). is_space db u))
        \<and> (\<forall>c \<in> set sequence. is_space db c) \<longrightarrow>
          valid r \<and> sequence_length r = 0 \<and> composition r = Map.empty)
    \<and> (\<forall>aa e. composition r aa = Some e \<longrightarrow>
          aa \<in> set (ascii ''ACDEFGHIKLMNPQRSTVWY'')
        \<and> count e = count_list clean aa \<and> 0 < count e
        \<and> percentage e =
            round_ndigits fl (times_int fl (truediv fl (count e) (length clean)) 100) 2)
    \<and> (\<forall>aa \<in> set (ascii ''ACDEFGHIKLMNPQRSTVWY'').
          aa \<in> set clean \<longrightarrow> composition r aa \<noteq> None)"
proof -
  define clean where "clean = strip_whitespace db (py_upper db sequence)"
  define r where "r = validate_protein_sequence db fl sequence"
  have L: "set (ascii ''ACDEFGHIKLMNPQRSTVWY'') = valid_aa"
    by (simp only: valid_aa_def valid_aa_letters_def)
  have r1: "validation.status r = ''success''" "clean_sequence r = clean"
           "sequence_length r = length clean"
    by (simp_all add: r_def clean_def validate_protein_sequence_def Let_def)
  have r2: "valid r \<longleftrightarrow> set clean \<subseteq> valid_aa"
    by (auto simp: r_def clean_def validate_protein_sequence_def Let_def)
  have comp: "composition r = composition_loop fl clean valid_aa_letters Map.empty"
    by (simp add: r_def clean_def validate_protein_sequence_def Let_def)
  have inside: "composition r aa =
      (if count_list clean aa > 0
       then Some \<lparr>count = count_list clean aa,
                  percentage = round_ndigits fl
                     (times_int fl (truediv fl (count_list clean aa) (length clean)) 100) 2\<rparr>
       else None)" if "aa \<in> valid_aa" for aa
    using composition_loop_entry [OF distinct_valid_aa_letters, of aa fl clean Map.empty] that
    by (simp add: comp valid_aa_def)
  have outside: "composition r aa = None" if "aa \<notin> valid_aa" for aa
    using composition_loop_other [of aa valid_aa_letters fl clean Map.empty] that
    by (simp add: comp valid_aa_def)
  have r4: "aa \<in> valid_aa \<and> count e = count_list clean aa \<and> 0 < count e
        \<and> percentage e =
            round_ndigits fl (times_int fl (truediv fl (count e) (length clean)) 100) 2"
    if "composition r aa = Some e" for aa e
  proof -
    from that outside have m: "aa \<in> valid_aa" by fastforce
    with that inside [OF m] show ?thesis by (auto split: if_splits)
  qed
  have r5: "composition r aa \<noteq> None" if "aa \<in> valid_aa" "aa \<in> set clean" for aa
    using inside [OF that(1)] that(2) by (simp add: count_list_0_iff_notin)
  have cleared: "valid r \<and> sequence_length r = 0 \<and> composition r = Map.empty"
    if e: "clean = []"
  proof -
    have "composition r aa = None" for aa
      using inside [of aa] outside [of aa] e by (cases "aa \<in> valid_aa") simp_all
    then have "composition r = Map.empty" by (simp add: fun_eq_iff)
    then show ?thesis using e r1 r2 by simp
  qed
  have r0: "valid r \<and> sequence_length r = 0 \<and> composition r = Map.empty"
    if "sequence = []"
  proof -
    from that have "clean = []"
      by (simp add: clean_def strip_whitespace_def py_upper_def)
    with cleared show ?thesis by blast
  qed
  have r3: "valid r \<and> sequence_length r = 0 \<and> composition r = Map.empty"
    if ws: "(\<forall>c. is_space db c \<longrightarrow> (\<forall>u \<in> set (upper_of db c). is_space db u))
            \<and> (\<forall>c \<in> set sequence. is_space db c)"
  proof -
    from ws have "\<forall>u \<in> set (py_upper db sequence). is_space db u"
      using py_upper_space [of db sequence] by blast
    then have "clean = []"
      by (simp add: clean_def strip_whitespace_def filter_empty_conv)
    with cleared show ?thesis by blast
  qed
  have "validation.status r = ''success''
    \<and> clean_sequence r = clean
    \<and> sequence_length r = length clean
    \<and> (valid r \<longleftrightarrow> set clean \<subseteq> valid_aa)
    \<and> (sequence = [] \<longrightarrow>
          valid r \<and> sequence_length r = 0 \<and> composition r = Map.empty)
    \<and> ((\<forall>c. is_space db c \<longrightarrow> (\<forall>u \<in> set (upper_of db c). is_space db u))
        \<and> (\<forall>c \<in> set sequence. is_space db c) \<longrightarrow>
          valid r \<and> sequence_length r = 0 \<and> composition r = Map.empty)
    \<and> (\<forall>aa e. composition r aa = Some e \<longrightarrow>
          aa \<in> valid_aa
        \<and> count e = count_list clean aa \<and> 0 < count e
        \<and> percentage e =
            round_ndigits fl (times_int fl (truediv fl (count e) (length clean)) 100) 2)
    \<and> (\<forall>aa \<in> valid_aa. aa \<in> set clean \<longrightarrow> composition r aa \<noteq> None)"
    using r1 r2 r0 r3 r4 r5 by (intro conjI allI impI ballI) blast+
  then show ?thesis
    unfolding Let_def L r_def clean_def .
qed

theorem validate_protein_sequence_spec_witness:
  "valid (validate_protein_sequence sample_tables symbolic_ops (ascii ''mk a''))
   \<and> clean_sequence (validate_protein_sequence sample_tables symbolic_ops (ascii ''mk a''))
       = ascii ''MKA''
   \<and> composition (validate_protein_sequence sample_tables symbolic_ops (ascii ''mk a'')) 77
       = Some \<lparr>count = 1, percentage = PyRound (PyMul (PyDiv 1 3) 100) 2\<rparr>
   \<and> \<not> valid (validate_protein_sequence sample_tables symbolic_ops (ascii ''MKX''))
   \<and> valid (validate_protein_sequence sample_tables symbolic_ops [77, 75, 160, 65])
   \<and> sequence_length (validate_protein_sequence sample_tables symbolic_ops [77, 75, 160, 65])
       = 3
   \<and> valid (validate_protein_sequence sample_tables symbolic_ops [223])
   \<and> clean_sequence (validate_protein_sequence sample_tables symbolic_ops [223]) = ascii ''SS''
   \<and> valid (validate_protein_sequence sample_tables symbolic_ops [160, 32, 133])
   \<and> sequence_length (validate_protein_sequence sample_tables symbolic_ops [160, 32, 133]) = 0
   \<and> composition (validate_protein_sequence sample_tables symbolic_ops [160, 32, 133])
       = Map.empty"
proof -
  have table: "\<forall>c. is_space sample_tables c \<longrightarrow>
                 (\<forall>u \<in> set (upper_of sample_tables c). is_space sample_tables u)"
    by (simp add: sample_tables_def)
  have blank: "\<forall>c \<in> set [160, 32, 133]. is_space sample_tables c"
    by (simp add: sample_tables_def)
  have run:
    "composition (validate_protein_sequence sample_tables symbolic_ops (ascii ''mk a'')) 77
       = Some \<lparr>count = 1, percentage = PyRound (PyMul (PyDiv 1 3) 100) 2\<rparr>"
    "strip_whitespace sample_tables (py_upper sample_tables (ascii ''mk a'')) = ascii ''MKA''"
    "strip_whitespace sample_tables (py_upper sample_tables (ascii ''MKX'')) = ascii ''MKX''"
    "strip_whitespace sample_tables (py_upper sample_tables [77, 75, 160, 65]) = ascii ''MKA''"
    "strip_whitespace sample_tables (py_upper sample_tables [223]) = ascii ''SS''"
    by code_simp+
  have sub: "set (ascii ''MKA'') \<subseteq> set (ascii ''ACDEFGHIKLMNPQRSTVWY'')"
            "\<not> set (ascii ''MKX'') \<subseteq> set (ascii ''ACDEFGHIKLMNPQRSTVWY'')"
            "set (ascii ''SS'') \<subseteq> set (ascii ''ACDEFGHIKLMNPQRSTVWY'')"
            "length (ascii ''MKA'') = 3"
    by (simp_all add: ascii_def)
  note a = validate_protein_sequence_spec [of sample_tables symbolic_ops "ascii ''mk a''",
             unfolded Let_def run]
  note b = validate_protein_sequence_spec [of sample_tables symbolic_ops "ascii ''MKX''",
             unfolded Let_def run]
  note c = validate_protein_sequence_spec [of sample_tables symbolic_ops "[77, 75, 160, 65]",
             unfolded Let_def run]
  note d = validate_protein_sequence_spec [of sample_tables symbolic_ops "[223]",
             unfolded Let_def run]
  note e = validate_protein_sequence_spec [of sample_tables symbolic_ops "[160, 32, 133]",
             unfolded Let_def]
  from e table blank have e':
    "valid (validate_protein_sequence sample_tables symbolic_ops [160, 32, 133])
     \<and> sequence_length (validate_protein_sequence sample_tables symbolic_ops [160, 32, 133]) = 0
     \<and> composition (validate_protein_sequence sample_tables symbolic_ops [160, 32, 133])
         = Map.empty"
    by blast
  from a b c d e' sub run(1) show ?thesis
    by simp
qed

section \<open>The child process and what the scripts report\<close>

text \<open>
  Claim C7. For every invocation of the external process by \<^verbatim>\<open>run_boltz_command\<close> or
  \<^verbatim>\<open>run_boltz_affinity_command\<close>: when the process exits with code 0 the outcome is
  marked successful and carries the captured standard output (and no error); when it exits
  with another code the outcome is marked failed and carries the rendering of the
  \<^verbatim>\<open>CalledProcessError\<close> (command and exit status) as its error together with the
  captured standard error.
\<close>

theorem run_boltz_command_outcome:
  assumes "run_process w (boltz_cmd input_yaml output_dir msa potentials fmt)
             = Exited returncode out err"
  shows "(returncode = 0 \<longrightarrow>
            (\<exists>res. run_boltz_command w input_yaml output_dir msa potentials fmt
                     = (Inr res, [Spawn (boltz_cmd input_yaml output_dir msa potentials fmt)])
                 \<and> map_of res ''success'' = Some (PBool True)
                 \<and> map_of res ''stdout'' = Some (PStr out)
                 \<and> map_of res ''error'' = None)
          \<and> (\<exists>res. run_boltz_affinity_command w input_yaml output_dir msa potentials fmt
                     = (Inr res, [Spawn (boltz_cmd input_yaml output_dir msa potentials fmt)])
                 \<and> map_of res ''success'' = Some (PBool True)
                 \<and> map_of res ''stdout'' = Some (PStr out)
                 \<and> map_of res ''error'' = None))
       \<and> (returncode \<noteq> 0 \<longrightarrow>
            (\<exists>res. run_boltz_command w input_yaml output_dir msa potentials fmt
                     = (Inr res, [Spawn (boltz_cmd input_yaml output_dir msa potentials fmt)])
                 \<and> map_of res ''success'' = Some (PBool False)
                 \<and> map_of res ''error'' = Some (PStr (called_process_error_str w
                       (boltz_cmd input_yaml output_dir msa potentials fmt) returncode))
                 \<and> map_of res ''stderr'' = Some (PStr err)
                 \<and> map_of res ''stdout'' = None)
          \<and> (\<exists>res. run_boltz_affinity_command w input_yaml output_dir msa potentials fmt
                     = (Inr res, [Spawn (boltz_cmd input_yaml output_dir msa potentials fmt)])
                 \<and> map_of res ''success'' = Some (PBool False)
                 \<and> map_of res ''error'' = Some (PStr (called_process_error_str w
                       (boltz_cmd input_yaml output_dir msa potentials fmt) returncode))
                 \<and> map_of res ''stderr'' = Some (PStr err)
                 \<and> map_of res ''stdout'' = None))"
  using assms
  by (simp add: run_boltz_command_def run_boltz_affinity_command_def Let_def)

theorem run_boltz_command_outcome_witness:
  "fst (run_boltz_command (quiet_world (Exited 0 ''done'' [])) ''in.yaml'' ''out'' True False ''pdb'')
     = Inr [(''success'', PBool True), (''stdout'', PStr ''done''), (''stderr'', PStr []),
            (''command'', PStr ''boltz predict in.yaml --out_dir out --output_format pdb --use_msa_server'')]
   \<and> map_of (projr (fst (run_boltz_command (quiet_world (Exited 1 [] ''boom''))
                ''in.yaml'' ''out'' True False ''pdb''))) ''stderr'' = Some (PStr ''boom'')"
proof -
  have a: "run_process (quiet_world (Exited 0 ''done'' [])) (boltz_cmd ''in.yaml'' ''out'' True False ''pdb'')
        = Exited 0 ''done'' []"
    by (simp add: quiet_world_def)
  have b: "run_process (quiet_world (Exited 1 [] ''boom'')) (boltz_cmd ''in.yaml'' ''out'' True False ''pdb'')
        = Exited 1 [] ''boom''"
    by (simp add: quiet_world_def)
  have c: "fst (run_boltz_command (quiet_world (Exited 0 ''done'' [])) ''in.yaml'' ''out'' True False ''pdb'')
     = Inr [(''success'', PBool True), (''stdout'', PStr ''done''), (''stderr'', PStr []),
            (''command'', PStr ''boltz predict in.yaml --out_dir out --output_format pdb --use_msa_server'')]"
    by (simp add: run_boltz_command_def boltz_cmd_def quiet_world_def)
  show ?thesis
    using run_boltz_command_outcome [OF a] run_boltz_command_outcome [OF b] c
    by auto
qed

lemma run_boltz_command_cases:
  assumes "run_boltz_command w y d m p f = (Inr pr, fx)"
  shows "\<exists>returncode out err.
           run_process w (boltz_cmd y d m p f) = Exited returncode out err
         \<and> fx = [Spawn (boltz_cmd y d m p f)]
         \<and> (if returncode = 0
             then pr = [(''success'', PBool True), (''stdout'', PStr out), (''stderr'', PStr err),
                        (''command'', PStr (py_join '' '' (boltz_cmd y d m p f)))]
             else pr = [(''success'', PBool False),
                        (''error'', PStr (called_process_error_str w (boltz_cmd y d m p f) returncode)),
                        (''stderr'', PStr err),
                        (''command'', PStr (py_join '' '' (boltz_cmd y d m p f)))])"
  using assms
  by (auto simp: run_boltz_command_def Let_def split: proc_outcome.splits if_splits)

lemma run_boltz_affinity_command_eq:
  "run_boltz_affinity_command = run_boltz_command"
  by (simp add: fun_eq_iff run_boltz_affinity_command_def run_boltz_command_def)

lemma structure_result_reports:
  assumes pr: "run_boltz_command w y d m p f = (Inr pr, fx)"
      and res: "structure_result pr i s od ofs cfg = Inr res"
  shows "reports w res"
proof -
  from run_boltz_command_cases [OF pr] obtain returncode out err where
    run: "run_process w (boltz_cmd y d m p f) = Exited returncode out err" and
    shape: "if returncode = 0
             then pr = [(''success'', PBool True), (''stdout'', PStr out), (''stderr'', PStr err),
                        (''command'', PStr (py_join '' '' (boltz_cmd y d m p f)))]
             else pr = [(''success'', PBool False),
                        (''error'', PStr (called_process_error_str w (boltz_cmd y d m p f) returncode)),
                        (''stderr'', PStr err),
                        (''command'', PStr (py_join '' '' (boltz_cmd y d m p f)))]"
    by blast
  show ?thesis
  proof (cases "returncode = 0")
    case True
    with shape res show ?thesis
      by (auto simp: structure_result_def dict_get_def Let_def)
  next
    case False
    with shape res have
      "map_of res ''result'' \<noteq> None \<and> (\<exists>payload. map_of res ''result'' = Some (PDict payload))"
      "map_of res ''success'' = Some (PBool False)"
      "map_of res ''error'' = Some (PStr (called_process_error_str w (boltz_cmd y d m p f) returncode))"
      "map_of res ''stderr'' = Some (PStr err)"
      by (auto simp: structure_result_def dict_get_def Let_def)
    with run False show ?thesis by blast
  qed
qed

lemma affinity_result_reports:
  assumes pr: "run_boltz_command w y d m p f = (Inr pr, fx)"
      and res: "affinity_result pr i s ls lc od av ofs cfg = Inr res"
  shows "reports w res"
proof -
  from run_boltz_command_cases [OF pr] obtain returncode out err where
    run: "run_process w (boltz_cmd y d m p f) = Exited returncode out err" and
    shape: "if returncode = 0
             then pr = [(''success'', PBool True), (''stdout'', PStr out), (''stderr'', PStr err),
                        (''command'', PStr (py_join '' '' (boltz_cmd y d m p f)))]
             else pr = [(''success'', PBool False),
                        (''error'', PStr (called_process_error_str w (boltz_cmd y d m p f) returncode)),
                        (''stderr'', PStr err),
                        (''command'', PStr (py_join '' '' (boltz_cmd y d m p f)))]"
    by blast
  show ?thesis
  proof (cases "returncode = 0")
    case True
    with shape res show ?thesis
      by (auto simp: affinity_result_def dict_get_def Let_def)
  next
    case False
    with shape res have
      "map_of res ''result'' \<noteq> None \<and> (\<exists>payload. map_of res ''result'' = Some (PDict payload))"
      "map_of res ''success'' = Some (PBool False)"
      "map_of res ''error'' = Some (PStr (called_process_error_str w (boltz_cmd y d m p f) returncode))"
      "map_of res ''stderr'' = Some (PStr err)"
      by (auto simp: affinity_result_def dict_get_def Let_def)
    with run False show ?thesis by blast
  qed
qed

lemma structure_run_reports:
  assumes "structure_run w cfg i s od y c fx = (Inr res, fx')"
  shows "reports w res"
proof -
  obtain a sp where r: "run_boltz_command w y od (use_msa_server cfg) (use_potentials cfg) (output_format cfg) = (a, sp)"
    by (cases "run_boltz_command w y od (use_msa_server cfg) (use_potentials cfg) (output_format cfg)")
  show ?thesis
  proof (cases a)
    case (Inl e)
    with assms r show ?thesis by (simp add: structure_run_def)
  next
    case (Inr pr)
    with assms r have "structure_result pr i s od (found_output_files w od) cfg = Inr res"
      by (auto simp: structure_run_def Let_def split: if_splits option.splits)
    moreover from r Inr have "run_boltz_command w y od (use_msa_server cfg) (use_potentials cfg) (output_format cfg) = (Inr pr, sp)"
      by simp
    ultimately show ?thesis by (rule structure_result_reports [rotated])
  qed
qed

lemma affinity_run_reports:
  assumes "affinity_run w cfg i s ls lc od y c fx = (Inr res, fx')"
  shows "reports w res"
proof -
  obtain a sp where r: "run_boltz_command w y od (use_msa_server cfg) (use_potentials cfg) (output_format cfg) = (a, sp)"
    by (cases "run_boltz_command w y od (use_msa_server cfg) (use_potentials cfg) (output_format cfg)")
  show ?thesis
  proof (cases a)
    case (Inl e)
    with assms r show ?thesis by (simp add: affinity_run_def run_boltz_affinity_command_eq)
  next
    case (Inr pr)
    with assms r have "affinity_result pr i s ls lc od (found_affinity_values w od) (found_output_files w od) cfg = Inr res"
      by (auto simp: affinity_run_def run_boltz_affinity_command_eq Let_def split: if_splits option.splits)
    moreover from r Inr have "run_boltz_command w y od (use_msa_server cfg) (use_potentials cfg) (output_format cfg) = (Inr pr, sp)"
      by simp
    ultimately show ?thesis by (rule affinity_result_reports [rotated])
  qed
qed

lemma run_structure_prediction_run:
  assumes "run_structure_prediction w i s od c k = (Inr res, fx)"
  shows "\<exists>cfg i' od' y cl fx0. structure_run w cfg i' s od' y cl fx0 = (Inr res, fx)"
  using assms
  unfolding run_structure_prediction_def Let_def
  by (auto split: if_splits option.splits) blast+

lemma run_affinity_prediction_run:
  assumes "run_affinity_prediction w i s ls lc od c k = (Inr res, fx)"
  shows "\<exists>cfg i' od' y cl fx0. affinity_run w cfg i' s ls lc od' y cl fx0 = (Inr res, fx)"
  using assms
  unfolding run_affinity_prediction_def Let_def
  by (auto split: if_splits option.splits) blast+

text \<open>
  Claim C8. Whenever \<^verbatim>\<open>run_structure_prediction\<close> or \<^verbatim>\<open>run_affinity_prediction\<close>
  returns a dictionary, it holds a \<^verbatim>\<open>result\<close> payload, and it either is marked successful
  or is marked failed and holds an \<^verbatim>\<open>error\<close> entry (the rendering of the failed
  process call) and the captured standard error of that process under \<^verbatim>\<open>stderr\<close>.
\<close>

theorem run_prediction_reports:
  "(fst (run_structure_prediction w input_file sequence output_dir config kwargs) = Inr res
      \<longrightarrow> reports w res)
   \<and> (fst (run_affinity_prediction w input_file protein_sequence ligand_smiles ligand_ccd
              output_dir aconfig akwargs) = Inr ares
      \<longrightarrow> reports w ares)"
proof (rule conjI; rule impI)
  assume "fst (run_structure_prediction w input_file sequence output_dir config kwargs) = Inr res"
  then obtain fx where
    "run_structure_prediction w input_file sequence output_dir config kwargs = (Inr res, fx)"
    by (cases "run_structure_prediction w input_file sequence output_dir config kwargs") simp
  from run_structure_prediction_run [OF this] show "reports w res"
    using structure_run_reports by blast
next
  assume "fst (run_affinity_prediction w input_file protein_sequence ligand_smiles ligand_ccd
              output_dir aconfig akwargs) = Inr ares"
  then obtain fx where
    "run_affinity_prediction w input_file protein_sequence ligand_smiles ligand_ccd
              output_dir aconfig akwargs = (Inr ares, fx)"
    by (cases "run_affinity_prediction w input_file protein_sequence ligand_smiles ligand_ccd
              output_dir aconfig akwargs") simp
  from run_affinity_prediction_run [OF this] show "reports w ares"
    using affinity_run_reports by blast
qed


theorem run_prediction_reports_witness:
  "\<not> isl (fst (run_structure_prediction (quiet_world (Exited 1 [] ''boom''))
              None (Some ''MKV'') None no_update no_update))
   \<and> map_of (projr (fst (run_structure_prediction (quiet_world (Exited 1 [] ''boom''))
              None (Some ''MKV'') None no_update no_update))) ''stderr'' = Some (PStr ''boom'')
   \<and> reports (quiet_world (Exited 1 [] ''boom''))
        (projr (fst (run_structure_prediction (quiet_world (Exited 1 [] ''boom''))
              None (Some ''MKV'') None no_update no_update)))
   \<and> \<not> isl (fst (run_affinity_prediction (quiet_world (Exited 0 ''done'' []))
              None (Some ''MKV'') None (Some ''ATP'') None no_affinity_update no_affinity_update))
   \<and> reports (quiet_world (Exited 0 ''done'' []))
        (projr (fst (run_affinity_prediction (quiet_world (Exited 0 ''done'' []))
              None (Some ''MKV'') None (Some ''ATP'') None no_affinity_update no_affinity_update)))"
proof -
  let ?s = "fst (run_structure_prediction (quiet_world (Exited 1 [] ''boom''))
              None (Some ''MKV'') None no_update no_update)"
  let ?a = "fst (run_affinity_prediction (quiet_world (Exited 0 ''done'' []))
              None (Some ''MKV'') None (Some ''ATP'') None no_affinity_update no_affinity_update)"
  have s: "\<not> isl ?s" "map_of (projr ?s) ''stderr'' = Some (PStr ''boom'')"
    by code_simp+
  have a: "\<not> isl ?a"
    by code_simp
  from s(1) have s': "?s = Inr (projr ?s)" by (cases ?s) simp_all
  from a have a': "?a = Inr (projr ?a)" by (cases ?a) simp_all
  show ?thesis
    using run_prediction_reports [of "quiet_world (Exited 1 [] ''boom'')" None "Some ''MKV''"
            None no_update no_update "projr ?s"]
          run_prediction_reports [where w = "quiet_world (Exited 0 ''done'' [])"
            and input_file = None and protein_sequence = "Some ''MKV''" and ligand_smiles = None
            and ligand_ccd = "Some ''ATP''" and output_dir = None
            and aconfig = no_affinity_update and akwargs = no_affinity_update
            and ares = "projr ?a"]
          s s' a a'
    by blast
qed

section \<open>The submit tools\<close>

lemma submitJob_creates:
  "scriptPath \<noteq> [] \<Longrightarrow>
   submitJob reg now scriptPath args jobName =
     (Inr (nextId reg),
      reg\<lparr>nextId := Suc (nextId reg),
          jobs := (jobs reg)(nextId reg \<mapsto>
            \<lparr>job_id = nextId reg, name = jobName, command = (scriptPath, args),
             status = Pending, createdAt = now, startedAt = None, finishedAt = None,
             processHandle = None, exitCode = None, result = None, error = None,
             logHandle = nextId reg\<rparr>),
          logs := (logs reg)(nextId reg := [])\<rparr>)"
  by (simp add: submitJob_def create_def newId_def Let_def)

text \<open>
  Claim C6. A submission without an input source (\<^verbatim>\<open>submit_structure_prediction\<close>
  given neither \<^verbatim>\<open>input_file\<close> nor \<^verbatim>\<open>sequence\<close>, \<^verbatim>\<open>submit_affinity_prediction\<close>
  given neither \<^verbatim>\<open>input_file\<close> nor a protein sequence with a ligand) is answered with
  the error at once and leaves the registry as it was: no job is created, so no record
  holds the error. Every other submission creates one pending job.
\<close>

theorem submit_malformed_is_synchronous:
  "(\<not> truthy input_file \<and> \<not> truthy sequence \<longrightarrow>
      submit_structure_prediction scripts_dir reg now input_file sequence output_dir
        msa potentials fmt job_name
      = (ErrorReply ''Must provide either input_file or sequence'', reg))
   \<and> (\<not> truthy input_file
        \<and> \<not> (truthy protein_sequence \<and> (truthy ligand_smiles \<or> truthy ligand_ccd)) \<longrightarrow>
      submit_affinity_prediction scripts_dir reg now input_file protein_sequence
        ligand_smiles ligand_ccd output_dir msa potentials fmt job_name
      = (ErrorReply ''Must provide either input_file OR (protein_sequence + ligand)'', reg))
   \<and> (truthy input_file \<or> truthy sequence \<longrightarrow>
      (\<exists>reg1. submit_structure_prediction scripts_dir reg now input_file sequence output_dir
                 msa potentials fmt job_name = (ManagerReply (Inr (nextId reg)), reg1)
            \<and> nextId reg1 = Suc (nextId reg)
            \<and> map_option status (jobs reg1 (nextId reg)) = Some Pending))
   \<and> (truthy input_file
        \<or> (truthy protein_sequence \<and> (truthy ligand_smiles \<or> truthy ligand_ccd)) \<longrightarrow>
      (\<exists>reg1. submit_affinity_prediction scripts_dir reg now input_file protein_sequence
                 ligand_smiles ligand_ccd output_dir msa potentials fmt job_name
               = (ManagerReply (Inr (nextId reg)), reg1)
            \<and> nextId reg1 = Suc (nextId reg)
            \<and> map_option status (jobs reg1 (nextId reg)) = Some Pending))"
proof -
  have a: "\<not> truthy input_file \<and> \<not> truthy sequence \<longrightarrow>
      submit_structure_prediction scripts_dir reg now input_file sequence output_dir
        msa potentials fmt job_name
      = (ErrorReply ''Must provide either input_file or sequence'', reg)"
    by (simp add: submit_structure_prediction_def Let_def)
  have b: "\<not> truthy input_file
        \<and> \<not> (truthy protein_sequence \<and> (truthy ligand_smiles \<or> truthy ligand_ccd)) \<longrightarrow>
      submit_affinity_prediction scripts_dir reg now input_file protein_sequence
        ligand_smiles ligand_ccd output_dir msa potentials fmt job_name
      = (ErrorReply ''Must provide either input_file OR (protein_sequence + ligand)'', reg)"
    by (simp add: submit_affinity_prediction_def Let_def)
  have c: "truthy input_file \<or> truthy sequence \<longrightarrow>
      (\<exists>reg1. submit_structure_prediction scripts_dir reg now input_file sequence output_dir
                 msa potentials fmt job_name = (ManagerReply (Inr (nextId reg)), reg1)
            \<and> nextId reg1 = Suc (nextId reg)
            \<and> map_option status (jobs reg1 (nextId reg)) = Some Pending)"
    by (auto simp: submit_structure_prediction_def Let_def submitJob_creates)
  have d: "truthy input_file
        \<or> (truthy protein_sequence \<and> (truthy ligand_smiles \<or> truthy ligand_ccd)) \<longrightarrow>
      (\<exists>reg1. submit_affinity_prediction scripts_dir reg now input_file protein_sequence
                 ligand_smiles ligand_ccd output_dir msa potentials fmt job_name
               = (ManagerReply (Inr (nextId reg)), reg1)
            \<and> nextId reg1 = Suc (nextId reg)
            \<and> map_option status (jobs reg1 (nextId reg)) = Some Pending)"
    by (auto simp: submit_affinity_prediction_def Let_def submitJob_creates)
  from a b c d show ?thesis by (intro conjI)
qed

theorem submit_malformed_is_synchronous_witness:
  "submit_structure_prediction ''/srv/scripts'' empty_registry 7 None (Some []) None
     True False ''pdb'' None
     = (ErrorReply ''Must provide either input_file or sequence'', empty_registry)
   \<and> submit_affinity_prediction ''/srv/scripts'' empty_registry 7 None (Some ''MKV'') None None
        None True False ''pdb'' None
     = (ErrorReply ''Must provide either input_file OR (protein_sequence + ligand)'',
        empty_registry)
   \<and> fst (submit_structure_prediction ''/srv/scripts'' empty_registry 7 None (Some ''MKV'') None
        True False ''pdb'' None) = ManagerReply (Inr 0)
   \<and> fst (submit_affinity_prediction ''/srv/scripts'' empty_registry 7 None (Some ''MKV'') None
        (Some ''ATP'') None True False ''pdb'' None) = ManagerReply (Inr 0)"
proof -
  have n: "nextId empty_registry = 0" by (simp add: empty_registry_def)
  show ?thesis
    using submit_malformed_is_synchronous [of None "Some []" "''/srv/scripts''" empty_registry 7
            None True False "''pdb''" None "Some ''MKV''" None None]
          submit_malformed_is_synchronous [of None "Some ''MKV''" "''/srv/scripts''"
            empty_registry 7 None True False "''pdb''" None "Some ''MKV''" None "Some ''ATP''"]
          n
    by auto
qed

text \<open>
  Claim C9. When both \<^verbatim>\<open>input_file\<close> and \<^verbatim>\<open>sequence\<close> are supplied,
  \<^verbatim>\<open>submit_structure_prediction\<close> submits a job whose arguments hold \<^verbatim>\<open>input\<close> and no
  \<^verbatim>\<open>sequence\<close> entry, while \<^verbatim>\<open>run_structure_prediction\<close> raises \<^verbatim>\<open>ValueError\<close>
  before any effect, which \<^verbatim>\<open>simple_structure_prediction\<close> returns as an error
  dictionary.
\<close>

theorem both_inputs_submit_accepts_run_rejects:
  assumes "truthy input_file" and "truthy sequence"
  shows "(\<exists>reg1 r. submit_structure_prediction scripts_dir reg now input_file sequence
                     output_dir msa potentials fmt job_name
                   = (ManagerReply (Inr (nextId reg)), reg1)
               \<and> jobs reg1 (nextId reg) = Some r
               \<and> status r = Pending
               \<and> map_of (snd (command r)) ''input'' = Some (StringValue (the input_file))
               \<and> map_of (snd (command r)) ''sequence'' = None
               \<and> command r
                   = (scripts_dir @ ''/structure_prediction.py'',
                      [(''output_format'', StringValue fmt),
                       (''input'', StringValue (the input_file))]
                      @ (if truthy output_dir
                         then [(''output'', StringValue (the output_dir))] else [])
                      @ (if \<not> msa then [(''no-msa-server'', BooleanFlag True)] else [])
                      @ (if potentials then [(''use-potentials'', BooleanFlag True)] else [])))
       \<and> run_structure_prediction w input_file sequence output_dir config kwargs
           = (Inl (ValueError ''Provide either input_file OR sequence, not both''), [])
       \<and> simple_structure_prediction w input_file sequence output_dir msa fmt
           = ([(''status'', PStr ''error''),
               (''error'', PStr ''Invalid input: Provide either input_file OR sequence, not both'')],
              [])"
proof -
  have run: "run_structure_prediction w input_file sequence output_dir config kwargs
           = (Inl (ValueError ''Provide either input_file OR sequence, not both''), [])" for config kwargs
    using assms by (simp add: run_structure_prediction_def Let_def)
  have simple: "simple_structure_prediction w input_file sequence output_dir msa fmt
           = ([(''status'', PStr ''error''),
               (''error'', PStr ''Invalid input: Provide either input_file OR sequence, not both'')],
              [])"
    by (simp add: simple_structure_prediction_def run error_dict_def)
  have sub: "\<exists>reg1 r. submit_structure_prediction scripts_dir reg now input_file sequence
                     output_dir msa potentials fmt job_name
                   = (ManagerReply (Inr (nextId reg)), reg1)
               \<and> jobs reg1 (nextId reg) = Some r
               \<and> status r = Pending
               \<and> map_of (snd (command r)) ''input'' = Some (StringValue (the input_file))
               \<and> map_of (snd (command r)) ''sequence'' = None
               \<and> command r
                   = (scripts_dir @ ''/structure_prediction.py'',
                      [(''output_format'', StringValue fmt),
                       (''input'', StringValue (the input_file))]
                      @ (if truthy output_dir
                         then [(''output'', StringValue (the output_dir))] else [])
                      @ (if \<not> msa then [(''no-msa-server'', BooleanFlag True)] else [])
                      @ (if potentials then [(''use-potentials'', BooleanFlag True)] else []))"
    using assms
    by (auto simp: submit_structure_prediction_def Let_def submitJob_creates command_line_def
                   flatten_args_def)
  from sub run simple show ?thesis by blast
qed

theorem both_inputs_submit_accepts_run_rejects_witness:
  "fst (submit_structure_prediction ''/srv/scripts'' empty_registry 7 (Some ''prot.yaml'')
          (Some ''MKV'') None True False ''pdb'' None) = ManagerReply (Inr 0)
   \<and> run_structure_prediction (quiet_world (Exited 0 [] [])) (Some ''prot.yaml'') (Some ''MKV'')
        None no_update no_update
      = (Inl (ValueError ''Provide either input_file OR sequence, not both''), [])
   \<and> simple_structure_prediction (quiet_world (Exited 0 [] [])) (Some ''prot.yaml'')
        (Some ''MKV'') None True ''pdb''
      = ([(''status'', PStr ''error''),
          (''error'', PStr ''Invalid input: Provide either input_file OR sequence, not both'')],
         [])"
proof -
  have n: "nextId empty_registry = 0" by (simp add: empty_registry_def)
  have t: "truthy (Some ''prot.yaml'')" "truthy (Some ''MKV'')" by simp_all
  show ?thesis
    using both_inputs_submit_accepts_run_rejects [OF t, of "''/srv/scripts''" empty_registry 7
            None True False "''pdb''" None "quiet_world (Exited 0 [] [])" no_update no_update]
          n
    by auto
qed

section \<open>The command line a submitted job is run with\<close>

text \<open>
  Claim C2, at two concrete submissions. The command line of the job that
  \<^verbatim>\<open>submit_structure_prediction\<close> creates for the input file \<^verbatim>\<open>prot.yaml\<close> is the script
  path followed by the flattened arguments, and so is the one
  \<^verbatim>\<open>submit_affinity_prediction\<close> creates; but its flag \<^verbatim>\<open>--output_format\<close>, which comes
  from the key \<^verbatim>\<open>output_format\<close> both tools put first, is not an option of either
  script's parser: they declare \<^verbatim>\<open>--output-format\<close>. The other flags are recognised.
\<close>

theorem output_format_flag_not_recognised:
  "(case submit_structure_prediction ''/srv/scripts'' empty_registry 7 (Some ''prot.yaml'') None
           None True False ''pdb'' None of
      (reply, reg) \<Rightarrow>
        reply = ManagerReply (Inr 0)
        \<and> map_option command_line (jobs reg 0)
            = Some [''/srv/scripts/structure_prediction.py'',
                    ''--output_format'', ''pdb'', ''--input'', ''prot.yaml''])
   \<and> (case submit_affinity_prediction ''/srv/scripts'' empty_registry 7 None (Some ''MKV'')
           (Some ''CCO'') None None False True ''cif'' None of
      (reply, reg) \<Rightarrow>
        reply = ManagerReply (Inr 0)
        \<and> map_option command_line (jobs reg 0)
            = Some [''/srv/scripts/affinity_prediction.py'',
                    ''--output_format'', ''cif'', ''--protein-seq'', ''MKV'',
                    ''--ligand-smiles'', ''CCO'', ''--no-msa-server'', ''--use-potentials''])
   \<and> flags_of [''/srv/scripts/structure_prediction.py'',
                 ''--output_format'', ''pdb'', ''--input'', ''prot.yaml'']
        = [''--output_format'', ''--input'']
   \<and> \<not> recognises structure_parser ''--output_format''
   \<and> \<not> recognises affinity_parser ''--output_format''
   \<and> recognises structure_parser ''--output-format''
   \<and> recognises affinity_parser ''--output-format''
   \<and> recognises structure_parser ''--input''
   \<and> recognises affinity_parser ''--protein-seq''
   \<and> recognises affinity_parser ''--ligand-smiles''
   \<and> recognises affinity_parser ''--no-msa-server''
   \<and> recognises affinity_parser ''--use-potentials''"
  by code_simp

section \<open>The job manager: registry, cancellation, result and log\<close>

lemma consistent_empty: "consistent empty_registry"
  by (simp add: consistent_def empty_registry_def)

lemma markRunning_step:
  assumes "jobs reg i = Some r"
  shows "\<exists>r'. jobs (snd (markRunning reg now j h)) i = Some r'
              \<and> job_id r' = job_id r
              \<and> (status r' = status r \<or> transition (status r) (status r'))"
proof (cases "jobs reg j")
  case None
  with assms show ?thesis by (simp add: markRunning_def)
next
  case (Some q)
  with assms show ?thesis
    by (cases "i = j") (simp_all add: markRunning_def transition_def allowed_def)
qed

lemma markRunning_dom:
  "jobs (snd (markRunning reg now j h)) i = None \<longleftrightarrow> jobs reg i = None"
  by (cases "jobs reg j") (simp_all add: markRunning_def)

lemma markRunning_nextId: "nextId (snd (markRunning reg now j h)) = nextId reg"
  by (cases "jobs reg j") (simp_all add: markRunning_def)

lemma markTerminal_step:
  assumes "jobs reg i = Some r"
  shows "\<exists>r'. jobs (snd (markTerminal reg now j st code payload)) i = Some r'
              \<and> job_id r' = job_id r
              \<and> (status r' = status r \<or> transition (status r) (status r'))"
proof (cases "jobs reg j")
  case None
  with assms show ?thesis by (simp add: markTerminal_def)
next
  case (Some q)
  with assms show ?thesis
    by (cases "i = j") (auto simp: markTerminal_def transition_def allowed_def terminal_def)
qed

lemma markTerminal_dom:
  "jobs (snd (markTerminal reg now j st code payload)) i = None \<longleftrightarrow> jobs reg i = None"
  by (cases "jobs reg j") (simp_all add: markTerminal_def)

lemma markTerminal_nextId: "nextId (snd (markTerminal reg now j st code payload)) = nextId reg"
  by (cases "jobs reg j") (simp_all add: markTerminal_def)

lemma append_log_jobs: "jobs (append_log reg j line) = jobs reg"
  by (cases "jobs reg j") (simp_all add: append_log_def)

lemma append_log_nextId: "nextId (append_log reg j line) = nextId reg"
  by (cases "jobs reg j") (simp_all add: append_log_def)

lemma submitJob_jobs:
  "jobs (snd (submitJob reg now p args nm)) i =
     (if p \<noteq> [] \<and> i = nextId reg
      then Some \<lparr>job_id = nextId reg, name = nm, command = (p, args), status = Pending,
                 createdAt = now, startedAt = None, finishedAt = None, processHandle = None,
                 exitCode = None, result = None, error = None, logHandle = nextId reg\<rparr>
      else jobs reg i)"
  by (simp add: submitJob_def create_def newId_def Let_def)

lemma submitJob_nextId:
  "nextId (snd (submitJob reg now p args nm)) = (if p \<noteq> [] then Suc (nextId reg) else nextId reg)"
  by (simp add: submitJob_def create_def newId_def Let_def)

lemma cancelJob_snd:
  "snd (cancelJob reg now j) =
     (case jobs reg j of
        None \<Rightarrow> reg
      | Some r \<Rightarrow>
          if terminal (status r) then reg
          else snd (markTerminal reg now (job_id r) Cancelled None (Inl ''cancelled'')))"
  by (simp add: cancelJob_def get_def cancel_def split: option.splits)

lemma cancelJob_step:
  assumes "jobs reg i = Some r"
  shows "\<exists>r'. jobs (snd (cancelJob reg now j)) i = Some r'
              \<and> job_id r' = job_id r
              \<and> (status r' = status r \<or> transition (status r) (status r'))"
proof (cases "jobs reg j")
  case None
  with assms show ?thesis by (simp add: cancelJob_snd)
next
  case (Some q)
  show ?thesis
  proof (cases "terminal (status q)")
    case True
    with Some assms show ?thesis by (simp add: cancelJob_snd)
  next
    case False
    with Some markTerminal_step [OF assms] show ?thesis by (simp add: cancelJob_snd)
  qed
qed

lemma cancelJob_dom:
  "jobs (snd (cancelJob reg now j)) i = None \<longleftrightarrow> jobs reg i = None"
  by (cases "jobs reg j") (simp_all add: cancelJob_snd markTerminal_dom)

lemma cancelJob_nextId: "nextId (snd (cancelJob reg now j)) = nextId reg"
  by (cases "jobs reg j") (simp_all add: cancelJob_snd markTerminal_nextId)

lemma perform_nextId_mono: "nextId reg \<le> nextId (perform reg c)"
proof (cases c)
  case (Pair now k)
  then show ?thesis
    by (cases k)
       (simp_all add: markRunning_nextId markTerminal_nextId append_log_nextId submitJob_nextId
          cancelJob_nextId executor_spawn_def executor_exit_def split: sum.splits)
qed

lemma perform_step:
  assumes "consistent reg" and "jobs reg i = Some r"
  shows "\<exists>r'. jobs (perform reg c) i = Some r'
              \<and> job_id r' = job_id r
              \<and> (status r' = status r \<or> transition (status r) (status r'))"
proof (cases c)
  case (Pair now k)
  from assms have id: "i < nextId reg"
    by (auto simp: consistent_def)
  show ?thesis
  proof (cases k)
    case (Submit p args nm)
    with Pair assms id show ?thesis by (simp add: submitJob_jobs)
  next
    case (Spawned j sp)
    with Pair markRunning_step [OF assms(2)] markTerminal_step [OF assms(2)] show ?thesis
      by (cases sp) (simp_all add: executor_spawn_def)
  next
    case (Output j line)
    with Pair assms show ?thesis by (simp add: append_log_jobs)
  next
    case (Exit j code out err)
    with Pair markTerminal_step [OF assms(2)] show ?thesis
      by (simp add: executor_exit_def)
  next
    case (MarkRunning j h)
    with Pair markRunning_step [OF assms(2)] show ?thesis by simp
  next
    case (MarkTerminal j st code payload)
    with Pair markTerminal_step [OF assms(2)] show ?thesis by simp
  next
    case (CancelJob j)
    with Pair cancelJob_step [OF assms(2)] show ?thesis by simp
  qed
qed

lemma perform_born:
  assumes "jobs reg i = None" and "jobs (perform reg c) i = Some r'"
  shows "status r' = Pending \<and> job_id r' = i \<and> i < nextId (perform reg c)"
proof (cases c)
  case (Pair now k)
  show ?thesis
  proof (cases k)
    case (Submit p args nm)
    with Pair assms show ?thesis
      by (auto simp: submitJob_jobs submitJob_nextId split: if_splits)
  next
    case (Spawned j sp)
    with Pair assms(1) have "jobs (perform reg c) i = None"
      by (cases sp) (simp_all add: executor_spawn_def markRunning_dom markTerminal_dom)
    with assms(2) show ?thesis by simp
  next
    case (Output j line)
    with Pair assms show ?thesis by (simp add: append_log_jobs)
  next
    case (Exit j code out err)
    with Pair assms(1) have "jobs (perform reg c) i = None"
      by (simp add: executor_exit_def markTerminal_dom)
    with assms(2) show ?thesis by simp
  next
    case (MarkRunning j h)
    with Pair assms(1) have "jobs (perform reg c) i = None"
      by (simp add: markRunning_dom)
    with assms(2) show ?thesis by simp
  next
    case (MarkTerminal j st code payload)
    with Pair assms(1) have "jobs (perform reg c) i = None"
      by (simp add: markTerminal_dom)
    with assms(2) show ?thesis by simp
  next
    case (CancelJob j)
    with Pair assms(1) have "jobs (perform reg c) i = None"
      by (simp add: cancelJob_dom)
    with assms(2) show ?thesis by simp
  qed
qed

lemma consistent_perform:
  assumes "consistent reg"
  shows "consistent (perform reg c)"
  unfolding consistent_def
proof (intro allI impI)
  fix i r'
  assume new: "jobs (perform reg c) i = Some r'"
  show "job_id r' = i \<and> i < nextId (perform reg c)"
  proof (cases "jobs reg i")
    case None
    from perform_born [OF None new] show ?thesis by simp
  next
    case (Some r)
    from assms Some have "job_id r = i" "i < nextId reg" by (auto simp: consistent_def)
    with perform_step [OF assms Some, of c] new have "job_id r' = i" by auto
    moreover note \<open>i < nextId reg\<close>
    with perform_nextId_mono [of reg c] have "i < nextId (perform reg c)" by simp
    ultimately show ?thesis by simp
  qed
qed

lemma consistent_foldl: "consistent reg \<Longrightarrow> consistent (foldl perform reg calls)"
  by (induction calls arbitrary: reg) (simp_all add: consistent_perform)

lemma consistent_manager_after: "consistent (manager_after calls)"
  by (simp add: manager_after_def consistent_foldl consistent_empty)









lemma cancelJob_terminal:
  assumes "jobs reg i = Some r" and "terminal (status r)"
  shows "cancelJob reg now i = (Inr (status r), reg)"
  using assms by (simp add: cancelJob_def get_def cancel_def)

lemma cancelJob_live:
  assumes "jobs reg i = Some r" and "job_id r = i" and "\<not> terminal (status r)"
  shows "\<exists>reg1 r1. cancelJob reg now i = (Inr Cancelled, reg1)
                 \<and> jobs reg1 i = Some r1 \<and> status r1 = Cancelled"
proof -
  from assms(3) have "status r = Pending \<or> status r = Running"
    by (cases "status r") (simp_all add: terminal_def)
  with assms(1,2) show ?thesis
    by (auto simp: cancelJob_def get_def cancel_def markTerminal_def terminal_def)
qed

text \<open>
  Claim C3. On a record in a terminal state \<open>cancelJob\<close> returns that status, not an
  error, and leaves the registry as it was, so a second call returns the same again. In
  whatever state the manager is, two calls of \<open>cancelJob\<close> on an existing job return the
  same terminal status, and the second changes nothing.
\<close>

theorem cancelJob_idempotent:
  "(\<forall>r. jobs reg i = Some r \<and> terminal (status r) \<longrightarrow>
        cancelJob reg now i = (Inr (status r), reg)
      \<and> cancelJob (snd (cancelJob reg now i)) later i = (Inr (status r), reg))
   \<and> (jobs (manager_after calls) i \<noteq> None \<longrightarrow>
        (\<exists>s reg1. cancelJob (manager_after calls) now i = (Inr s, reg1)
               \<and> terminal s
               \<and> cancelJob reg1 later i = (Inr s, reg1)))
   \<and> (jobs reg i = None \<longrightarrow> cancelJob reg now i = (Inl NotFound, reg))"
proof (intro conjI allI impI)
  fix r
  assume a: "jobs reg i = Some r \<and> terminal (status r)"
  then show "cancelJob reg now i = (Inr (status r), reg)"
    by (simp add: cancelJob_terminal)
  with a show "cancelJob (snd (cancelJob reg now i)) later i = (Inr (status r), reg)"
    by (simp add: cancelJob_terminal)
next
  assume "jobs reg i = None"
  then show "cancelJob reg now i = (Inl NotFound, reg)"
    by (simp add: cancelJob_def get_def)
next
  let ?reg = "manager_after calls"
  assume "jobs ?reg i \<noteq> None"
  then obtain r where r: "jobs ?reg i = Some r" by blast
  with consistent_manager_after [of calls] have id: "job_id r = i"
    by (auto simp: consistent_def)
  show "\<exists>s reg1. cancelJob ?reg now i = (Inr s, reg1) \<and> terminal s
                \<and> cancelJob reg1 later i = (Inr s, reg1)"
  proof (cases "terminal (status r)")
    case True
    with r show ?thesis
      using cancelJob_terminal by blast
  next
    case False
    from cancelJob_live [OF r id False, of now] obtain reg1 r1 where
      c: "cancelJob ?reg now i = (Inr Cancelled, reg1)"
         "jobs reg1 i = Some r1" "status r1 = Cancelled"
      by blast
    have t: "terminal Cancelled" by (simp add: terminal_def)
    from cancelJob_terminal [OF c(2), of later] c(3) t
    have "cancelJob reg1 later i = (Inr Cancelled, reg1)" by simp
    with c(1) t show ?thesis by blast
  qed
qed

theorem cancelJob_idempotent_witness:
  "cancelJob (manager_after [(1, Submit ''s.py'' [] ''job''), (2, Spawned 0 (Inr 41)),
                              (3, Exit 0 1 PNone ''boom'')]) 4 0
     = (Inr Failed, manager_after [(1, Submit ''s.py'' [] ''job''), (2, Spawned 0 (Inr 41)),
                                   (3, Exit 0 1 PNone ''boom'')])
   \<and> fst (cancelJob (manager_after [(1, Submit ''s.py'' [] ''job''), (2, Spawned 0 (Inr 41))])
            4 0) = Inr Cancelled
   \<and> fst (cancelJob (snd (cancelJob
            (manager_after [(1, Submit ''s.py'' [] ''job''), (2, Spawned 0 (Inr 41))]) 4 0))
            5 0) = Inr Cancelled"
proof -
  let ?done = "manager_after [(1, Submit ''s.py'' [] ''job''), (2, Spawned 0 (Inr 41)),
                              (3, Exit 0 1 PNone ''boom'')]"
  let ?live = "manager_after [(1, Submit ''s.py'' [] ''job''), (2, Spawned 0 (Inr 41))]"
  have d: "map_option status (jobs ?done 0) = Some Failed"
    by code_simp
  have l: "jobs ?live 0 \<noteq> None" "fst (cancelJob ?live 4 0) = Inr Cancelled"
    by code_simp+
  from d obtain r where r: "jobs ?done 0 = Some r" "status r = Failed" by auto
  then have rt: "jobs ?done 0 = Some r \<and> terminal (status r)"
    by (simp add: terminal_def)
  from cancelJob_idempotent [of ?done 0 4 5 "[(1, Submit ''s.py'' [] ''job''), (2, Spawned 0 (Inr 41))]"]
    rt r(2) l
  show ?thesis by (auto simp: fst_def)
qed

lemma never_issued:
  assumes "nextId (manager_after calls) \<le> i"
  shows "jobs (manager_after calls) i = None"
proof (cases "jobs (manager_after calls) i")
  case None
  then show ?thesis .
next
  case (Some r)
  with consistent_manager_after [of calls] have "i < nextId (manager_after calls)"
    by (auto simp: consistent_def)
  with assms show ?thesis by simp
qed

text \<open>
  Claim C4. \<open>getJobResult\<close> fails with \<open>NotFound\<close> on an identifier that was never
  issued (and on any identifier without a record), fails with \<open>NotReady\<close> on a pending or
  running job, and on a failed or cancelled job returns the stored error as its result.
\<close>

theorem getJobResult_errors:
  "(nextId (manager_after calls) \<le> i \<longrightarrow>
      getJobResult (manager_after calls) i = Inl NotFound)
   \<and> (jobs reg i = None \<longrightarrow> getJobResult reg i = Inl NotFound)
   \<and> (\<forall>r. jobs reg i = Some r \<longrightarrow>
        (status r = Pending \<or> status r = Running \<longrightarrow> getJobResult reg i = Inl NotReady)
      \<and> (status r = Failed \<or> status r = Cancelled \<longrightarrow>
           getJobResult reg i = Inr (ErrorPayload (error r)))
      \<and> (status r = Completed \<longrightarrow> getJobResult reg i = Inr (ResultPayload (result r))))"
proof -
  have a: "jobs reg i = None \<longrightarrow> getJobResult reg i = Inl NotFound" for reg
    by (simp add: getJobResult_def get_def)
  have b: "nextId (manager_after calls) \<le> i \<longrightarrow>
      getJobResult (manager_after calls) i = Inl NotFound"
    by (simp add: never_issued getJobResult_def get_def)
  have c: "\<forall>r. jobs reg i = Some r \<longrightarrow>
        (status r = Pending \<or> status r = Running \<longrightarrow> getJobResult reg i = Inl NotReady)
      \<and> (status r = Failed \<or> status r = Cancelled \<longrightarrow>
           getJobResult reg i = Inr (ErrorPayload (error r)))
      \<and> (status r = Completed \<longrightarrow> getJobResult reg i = Inr (ResultPayload (result r)))"
    by (auto simp: getJobResult_def get_def terminal_def)
  from a [of reg] b c show ?thesis by (intro conjI)
qed

theorem getJobResult_errors_witness:
  "getJobResult (manager_after [(1, Submit ''s.py'' [] ''job'')]) 1 = Inl NotFound
   \<and> getJobResult (manager_after [(1, Submit ''s.py'' [] ''job'')]) 0 = Inl NotReady
   \<and> getJobResult (manager_after [(1, Submit ''s.py'' [] ''job''), (2, Spawned 0 (Inr 41))]) 0
       = Inl NotReady
   \<and> getJobResult (manager_after [(1, Submit ''s.py'' [] ''job''), (2, Spawned 0 (Inr 41)),
                                   (3, Exit 0 1 PNone ''boom'')]) 0
       = Inr (ErrorPayload (Some ''boom''))
   \<and> getJobResult (manager_after [(1, Submit ''s.py'' [] ''job''), (2, CancelJob 0)]) 0
       = Inr (ErrorPayload (Some ''cancelled''))"
proof -
  let ?p = "manager_after [(1, Submit ''s.py'' [] ''job'')]"
  let ?r = "manager_after [(1, Submit ''s.py'' [] ''job''), (2, Spawned 0 (Inr 41))]"
  let ?f = "manager_after [(1, Submit ''s.py'' [] ''job''), (2, Spawned 0 (Inr 41)),
                           (3, Exit 0 1 PNone ''boom'')]"
  let ?c = "manager_after [(1, Submit ''s.py'' [] ''job''), (2, CancelJob 0)]"
  have n: "nextId ?p \<le> 1" by code_simp
  have p: "map_option status (jobs ?p 0) = Some Pending" by code_simp
  have r: "map_option status (jobs ?r 0) = Some Running" by code_simp
  have f: "map_option status (jobs ?f 0) = Some Failed"
          "map_option error (jobs ?f 0) = Some (Some ''boom'')" by code_simp+
  have c: "map_option status (jobs ?c 0) = Some Cancelled"
          "map_option error (jobs ?c 0) = Some (Some ''cancelled'')" by code_simp+
  from getJobResult_errors [of "[(1, Submit ''s.py'' [] ''job'')]" 1 ?p]
       getJobResult_errors [of "[]" 0 ?p] n p
  have 1: "getJobResult ?p 1 = Inl NotFound" "getJobResult ?p 0 = Inl NotReady"
    by auto
  from getJobResult_errors [of "[]" 0 ?r] r
  have 2: "getJobResult ?r 0 = Inl NotReady" by auto
  from getJobResult_errors [of "[]" 0 ?f] f
  have 3: "getJobResult ?f 0 = Inr (ErrorPayload (Some ''boom''))" by auto
  from getJobResult_errors [of "[]" 0 ?c] c
  have 4: "getJobResult ?c 0 = Inr (ErrorPayload (Some ''cancelled''))" by auto
  from 1 2 3 4 show ?thesis by simp
qed

text \<open>
  Claim C5. For every job and every \<open>n > 0\<close>, \<open>getJobLog\<close> with \<open>n\<close> returns at most
  \<open>n\<close> lines, and they are a suffix of the lines \<open>getJobLog\<close> with 0 returns; for a job
  without output the answer is the empty sequence, not an error.
\<close>

theorem getJobLog_tail:
  assumes "jobs reg i = Some r" and "0 < n"
  shows "\<exists>ls everything.
           getJobLog reg i n = Inr (ls, length everything)
         \<and> getJobLog reg i 0 = Inr (everything, length everything)
         \<and> everything = logs reg (logHandle r)
         \<and> length ls \<le> n
         \<and> length ls = min n (length everything)
         \<and> suffix ls everything
         \<and> (everything = [] \<longrightarrow> ls = [])"
  using assms
  by (auto simp: getJobLog_def get_def tail_def Let_def suffix_drop)

theorem getJobLog_tail_witness:
  "getJobLog (manager_after [(1, Submit ''s.py'' [] ''job''), (2, Spawned 0 (Inr 41)),
              (3, Output 0 ''a''), (4, Output 0 ''b''), (5, Output 0 ''c'')]) 0 2
     = Inr ([''b'', ''c''], 3)
   \<and> getJobLog (manager_after [(1, Submit ''s.py'' [] ''job''), (2, Spawned 0 (Inr 41)),
              (3, Output 0 ''a''), (4, Output 0 ''b''), (5, Output 0 ''c'')]) 0 0
     = Inr ([''a'', ''b'', ''c''], 3)
   \<and> suffix [''b'', ''c''] [''a'', ''b'', ''c'']
   \<and> getJobLog (manager_after [(1, Submit ''s.py'' [] ''job'')]) 0 5 = Inr ([], 0)"
proof -
  let ?l = "manager_after [(1, Submit ''s.py'' [] ''job''), (2, Spawned 0 (Inr 41)),
              (3, Output 0 ''a''), (4, Output 0 ''b''), (5, Output 0 ''c'')]"
  let ?e = "manager_after [(1, Submit ''s.py'' [] ''job'')]"
  have l: "jobs ?l 0 \<noteq> None" "getJobLog ?l 0 2 = Inr ([''b'', ''c''], 3)"
          "getJobLog ?l 0 0 = Inr ([''a'', ''b'', ''c''], 3)"
    by code_simp+
  have e: "jobs ?e 0 \<noteq> None" "map_option (\<lambda>r. logs ?e (logHandle r)) (jobs ?e 0) = Some []"
    by code_simp+
  from l(1) obtain r where r: "jobs ?l 0 = Some r" by blast
  from e obtain q where q: "jobs ?e 0 = Some q" "logs ?e (logHandle q) = []" by auto
  have two: "(0::nat) < 2" and five: "(0::nat) < 5" by simp_all
  from getJobLog_tail [OF r two] l(2,3) have s: "suffix [''b'', ''c''] [''a'', ''b'', ''c'']"
    by auto
  from getJobLog_tail [OF q(1) five] q(2) have "getJobLog ?e 0 5 = Inr ([], 0)"
    by auto
  with l s show ?thesis by simp
qed

end
